theory Spec2Isabelle
  imports Main "HOL-Library.Word"
begin

unbundle bit_operations_syntax

section \<open>Machine values\<close>

text \<open>
  The navigation scene of \<^verbatim>\<open>src/navigation/navigation_system.cpp\<close> works on 32-bit
  integers, IEEE single floats and raw bytes. A \<^verbatim>\<open>float\<close> is kept as its 32-bit pattern;
  the arithmetic on floats is not interpreted: every function that computes with floats
  takes the floating-point unit as a parameter (\<open>fpu\<close>). An \<^verbatim>\<open>int\<close> that is stored in a
  file is a 32-bit word read with \<open>sint\<close>; handles and counters that are only compared
  are \<open>int\<close>.
\<close>

type_synonym u8 = "8 word"
type_synonym u16 = "16 word"
type_synonym u32 = "32 word"
type_synonym i32 = "32 word"
type_synonym f32 = "32 word"

record fpu =
  fadd :: "f32 \<Rightarrow> f32 \<Rightarrow> f32"
  fsub :: "f32 \<Rightarrow> f32 \<Rightarrow> f32"
  fmul :: "f32 \<Rightarrow> f32 \<Rightarrow> f32"
  fdiv :: "f32 \<Rightarrow> f32 \<Rightarrow> f32"
  fgt :: "f32 \<Rightarrow> f32 \<Rightarrow> bool"
  fsqrt :: "f32 \<Rightarrow> f32"
  fcos :: "f32 \<Rightarrow> f32"
  fatan2 :: "f32 \<Rightarrow> f32 \<Rightarrow> f32"
  i2f :: "i32 \<Rightarrow> f32"
  f2i :: "f32 \<Rightarrow> i32"

text \<open>The float literals of the source, as bit patterns.\<close>

definition f_0 :: f32 where "f_0 = 0"
definition f_0_1 :: f32 where "f_0_1 = 0x3DCCCCCD"
definition f_1 :: f32 where "f_1 = 0x3F800000"
definition f_2 :: f32 where "f_2 = 0x40000000"
definition f_4 :: f32 where "f_4 = 0x40800000"
definition f_10 :: f32 where "f_10 = 0x41200000"
definition f_12 :: f32 where "f_12 = 0x41400000"
definition f_30 :: f32 where "f_30 = 0x41F00000"
definition f_45 :: f32 where "f_45 = 0x42340000"
definition f_60 :: f32 where "f_60 = 0x42700000"

definition CELLS_PER_TILE_SIDE :: i32 where "CELLS_PER_TILE_SIDE = 256"
definition CELL_SIZE :: f32 where "CELL_SIZE = 0x3E99999A"

section \<open>Engine types\<close>

text \<open>
  \<^verbatim>\<open>Vec3\<close>, \<^verbatim>\<open>Quat\<close>, \<^verbatim>\<open>Matrix\<close> and \<^verbatim>\<open>AABB\<close> are engine types whose headers are not
  among the sources. \<^verbatim>\<open>Vec3\<close> is three floats and its operators are componentwise;
  the other operations are parameters (\<open>engine\<close>).
\<close>

datatype vec3 = Vec3 (vx: f32) (vy: f32) (vz: f32)

datatype quat = Quat f32 f32 f32 f32

type_synonym matrix = "f32 list"

record AABB =
  aabb_min :: vec3
  aabb_max :: vec3

definition vadd :: "fpu \<Rightarrow> vec3 \<Rightarrow> vec3 \<Rightarrow> vec3" where
  "vadd fp a b = Vec3 (fadd fp (vx a) (vx b)) (fadd fp (vy a) (vy b)) (fadd fp (vz a) (vz b))"

definition vsub :: "fpu \<Rightarrow> vec3 \<Rightarrow> vec3 \<Rightarrow> vec3" where
  "vsub fp a b = Vec3 (fsub fp (vx a) (vx b)) (fsub fp (vy a) (vy b)) (fsub fp (vz a) (vz b))"

definition vscale :: "fpu \<Rightarrow> vec3 \<Rightarrow> f32 \<Rightarrow> vec3" where
  "vscale fp a k = Vec3 (fmul fp (vx a) k) (fmul fp (vy a) k) (fmul fp (vz a) k)"

definition squaredLength :: "fpu \<Rightarrow> vec3 \<Rightarrow> f32" where
  "squaredLength fp a =
     fadd fp (fadd fp (fmul fp (vx a) (vx a)) (fmul fp (vy a) (vy a))) (fmul fp (vz a) (vz a))"

definition vlength :: "fpu \<Rightarrow> vec3 \<Rightarrow> f32" where
  "vlength fp a = fsqrt fp (squaredLength fp a)"

definition crossProduct :: "fpu \<Rightarrow> vec3 \<Rightarrow> vec3 \<Rightarrow> vec3" where
  "crossProduct fp a b =
     Vec3 (fsub fp (fmul fp (vy a) (vz b)) (fmul fp (vy b) (vz a)))
          (fsub fp (fmul fp (vz a) (vx b)) (fmul fp (vz b) (vx a)))
          (fsub fp (fmul fp (vx a) (vy b)) (fmul fp (vx b) (vy a)))"

definition normalized :: "fpu \<Rightarrow> vec3 \<Rightarrow> vec3" where
  "normalized fp a = vscale fp a (fdiv fp f_1 (vlength fp a))"

type_synonym entity = int

definition INVALID_ENTITY :: entity where "INVALID_ENTITY = - 1"

definition INVALID_COMPONENT :: int where "INVALID_COMPONENT = - 1"

text \<open>The geometry provider: the render scene's renderables and terrains, in the order
  \<^verbatim>\<open>getFirstRenderable\<close>/\<^verbatim>\<open>getNextRenderable\<close> and \<^verbatim>\<open>getFirstTerrain\<close>/\<^verbatim>\<open>getNextTerrain\<close>
  enumerate them. Of a mesh's material the scene asks two custom flags only,
  \<^verbatim>\<open>no_navigation\<close> and \<^verbatim>\<open>nonwalkable\<close>; a model's index buffer is read as 16-bit or as
  32-bit indices, so both readings are fields.\<close>

record mesh =
  no_navigation :: bool
  nonwalkable :: bool
  attribute_array_offset :: i32
  indices_offset :: i32
  indices_count :: i32

record model =
  model_flags :: u32
  model_aabb :: AABB
  model_indices16 :: "u16 list"
  model_indices32 :: "u32 list"
  model_vertices :: "vec3 list"
  model_stride :: i32
  model_meshes :: "mesh list"
  model_lod0_from :: i32
  model_lod0_to :: i32

record renderable =
  renderable_model :: "model option"
  renderable_entity :: entity

record terrain =
  terrain_entity :: entity
  terrain_resolution :: "f32 \<times> f32"
  terrain_xz_scale :: f32
  terrain_height_at :: "f32 \<Rightarrow> f32 \<Rightarrow> f32"
  terrain_aabb :: AABB

record render_scene =
  renderables :: "renderable list"
  terrains :: "terrain list"

record universe =
  positions :: "entity \<Rightarrow> vec3"
  rotations :: "entity \<Rightarrow> quat"
  render :: "render_scene option"

definition getPosition :: "universe \<Rightarrow> entity \<Rightarrow> vec3" where
  "getPosition u e = positions u e"

definition getRotation :: "universe \<Rightarrow> entity \<Rightarrow> quat" where
  "getRotation u e = rotations u e"

text \<open>The scene is itself bound to the universe's \<^verbatim>\<open>entityTransformed\<close> signal. A write
  the simulator makes sets the entity to the crowd agent's own position, so the handler
  it would fire compares a position with itself; the stores below are plain stores, and
  \<open>onEntityMoved\<close> is the handler for moves made by other code.\<close>

definition setPosition :: "universe \<Rightarrow> entity \<Rightarrow> vec3 \<Rightarrow> universe" where
  "setPosition u e p = u\<lparr>positions := (positions u)(e := p)\<rparr>"

definition setRotation :: "universe \<Rightarrow> entity \<Rightarrow> quat \<Rightarrow> universe" where
  "setRotation u e q = u\<lparr>rotations := (rotations u)(e := q)\<rparr>"

record engine =
  getMatrix :: "universe \<Rightarrow> entity \<Rightarrow> matrix"
  aabb_transform :: "AABB \<Rightarrow> matrix \<Rightarrow> AABB"
  aabb_merge :: "AABB \<Rightarrow> AABB \<Rightarrow> AABB"
  aabb_overlaps :: "AABB \<Rightarrow> AABB \<Rightarrow> bool"
  multiplyPosition :: "matrix \<Rightarrow> vec3 \<Rightarrow> vec3"
  quat_toMatrix :: "quat \<Rightarrow> matrix"
  setTranslation :: "matrix \<Rightarrow> vec3 \<Rightarrow> matrix"
  fastInverse :: "matrix \<Rightarrow> matrix"
  quat_rotate :: "quat \<Rightarrow> vec3 \<Rightarrow> vec3"
  quat_axis_angle :: "vec3 \<Rightarrow> f32 \<Rightarrow> quat"
  degreesToRadians :: "f32 \<Rightarrow> f32"
  clamp :: "f32 \<Rightarrow> f32 \<Rightarrow> f32 \<Rightarrow> f32"
  log2 :: "i32 \<Rightarrow> i32"
  nextPow2 :: "i32 \<Rightarrow> i32"
  INDICES_16BIT :: u32
  open_for_writing :: "string \<Rightarrow> bool"

text \<open>The script scene, as far as \<^verbatim>\<open>onPathFinished\<close> asks it: the script component of
  an entity, the number of its scripts, and whether \<^verbatim>\<open>beginFunctionCall\<close> finds the
  function in a script.\<close>

record script_scene =
  script_component :: "entity \<Rightarrow> int"
  script_count :: "int \<Rightarrow> int"
  begin_function_call :: "int \<Rightarrow> int \<Rightarrow> string \<Rightarrow> bool"

section \<open>The mesh-build library (Recast)\<close>

text \<open>
  The library's buffers are opaque to the scene: the heightfield, the compact
  heightfield and the contour set are type parameters (\<open>'h\<close>, \<open>'c\<close>, \<open>'s\<close>), and every
  stage is a parameter that returns whether it succeeded together with the buffer it
  wrote. The polygon mesh and the detail mesh are read by the scene, so they are records
  of the fields it reads.
\<close>

record rcConfig =
  cfg_width :: i32
  cfg_height :: i32
  cfg_tileSize :: i32
  cfg_borderSize :: i32
  cfg_cs :: f32
  cfg_ch :: f32
  cfg_bmin :: vec3
  cfg_bmax :: vec3
  cfg_walkableSlopeAngle :: f32
  cfg_walkableHeight :: i32
  cfg_walkableClimb :: i32
  cfg_walkableRadius :: i32
  cfg_maxEdgeLen :: i32
  cfg_maxSimplificationError :: f32
  cfg_minRegionArea :: i32
  cfg_mergeRegionArea :: i32
  cfg_maxVertsPerPoly :: i32
  cfg_detailSampleDist :: f32
  cfg_detailSampleMaxError :: f32

record rcPolyMesh =
  pm_verts :: "u16 list"
  pm_polys :: "u16 list"
  pm_areas :: "u8 list"
  pm_flags :: "u16 list"
  pm_nverts :: i32
  pm_npolys :: i32
  pm_nvp :: i32
  pm_bmin :: vec3
  pm_bmax :: vec3

record rcPolyMeshDetail =
  dm_meshes :: "u32 list"
  dm_verts :: "f32 list"
  dm_nverts :: i32
  dm_tris :: "u8 list"
  dm_ntris :: i32

record ('h, 'c, 's) recast =
  RC_WALKABLE_AREA :: u8
  rcAllocHeightfield :: "'h option"
  rcCreateHeightfield :: "'h \<Rightarrow> i32 \<Rightarrow> i32 \<Rightarrow> vec3 \<Rightarrow> vec3 \<Rightarrow> f32 \<Rightarrow> f32 \<Rightarrow> bool \<times> 'h"
  rcRasterizeTriangle :: "vec3 \<Rightarrow> vec3 \<Rightarrow> vec3 \<Rightarrow> u8 \<Rightarrow> 'h \<Rightarrow> 'h"
  rcFilterLowHangingWalkableObstacles :: "i32 \<Rightarrow> 'h \<Rightarrow> 'h"
  rcFilterLedgeSpans :: "i32 \<Rightarrow> i32 \<Rightarrow> 'h \<Rightarrow> 'h"
  rcFilterWalkableLowHeightSpans :: "i32 \<Rightarrow> 'h \<Rightarrow> 'h"
  rcAllocCompactHeightfield :: "'c option"
  rcBuildCompactHeightfield :: "i32 \<Rightarrow> i32 \<Rightarrow> 'h \<Rightarrow> 'c \<Rightarrow> bool \<times> 'c"
  rcErodeWalkableArea :: "i32 \<Rightarrow> 'c \<Rightarrow> bool \<times> 'c"
  rcBuildDistanceField :: "'c \<Rightarrow> bool \<times> 'c"
  rcBuildRegions :: "'c \<Rightarrow> i32 \<Rightarrow> i32 \<Rightarrow> i32 \<Rightarrow> bool \<times> 'c"
  rcAllocContourSet :: "'s option"
  rcBuildContours :: "'c \<Rightarrow> f32 \<Rightarrow> i32 \<Rightarrow> 's \<Rightarrow> bool \<times> 's"
  rcAllocPolyMesh :: "rcPolyMesh option"
  rcBuildPolyMesh :: "'s \<Rightarrow> i32 \<Rightarrow> rcPolyMesh \<Rightarrow> bool \<times> rcPolyMesh"
  rcAllocPolyMeshDetail :: "rcPolyMeshDetail option"
  rcBuildPolyMeshDetail ::
    "rcPolyMesh \<Rightarrow> 'c \<Rightarrow> f32 \<Rightarrow> f32 \<Rightarrow> rcPolyMeshDetail \<Rightarrow> bool \<times> rcPolyMeshDetail"
  rcCalcGridSize :: "vec3 \<Rightarrow> vec3 \<Rightarrow> f32 \<Rightarrow> i32 \<times> i32"

section \<open>The navmesh and crowd library (Detour)\<close>

type_synonym dtPolyRef = u32

record dtNavMeshParams =
  orig :: vec3
  tileWidth :: f32
  tileHeight :: f32
  maxTiles :: i32
  maxPolys :: i32

record dtMeshTile =
  dataSize :: i32
  data :: "u8 list"

text \<open>Modelled from the spec: the declaration of the library's tile store is not among
  the sources. The store holds the build parameters given at \<^verbatim>\<open>init\<close> and at most one
  tile blob per tile coordinate; a blob is opaque and is filed under the coordinate its
  own header carries.\<close>

record dtNavMesh =
  nm_params :: "dtNavMeshParams option"
  nm_tiles :: "(i32 \<times> i32) \<rightharpoonup> dtMeshTile"

record dtNavMeshCreateParams =
  cp_verts :: "u16 list"
  cp_vertCount :: i32
  cp_polys :: "u16 list"
  cp_polyAreas :: "u8 list"
  cp_polyFlags :: "u16 list"
  cp_polyCount :: i32
  cp_nvp :: i32
  cp_detailMeshes :: "u32 list"
  cp_detailVerts :: "f32 list"
  cp_detailVertsCount :: i32
  cp_detailTris :: "u8 list"
  cp_detailTriCount :: i32
  cp_walkableHeight :: f32
  cp_walkableRadius :: f32
  cp_walkableClimb :: f32
  cp_tileX :: i32
  cp_tileY :: i32
  cp_bmin :: vec3
  cp_bmax :: vec3
  cp_cs :: f32
  cp_ch :: f32
  cp_buildBvTree :: bool

record dtCrowdAgentParams =
  ap_radius :: f32
  ap_height :: f32
  ap_maxAcceleration :: f32
  ap_maxSpeed :: f32
  ap_collisionQueryRange :: f32
  ap_pathOptimizationRange :: f32
  ap_updateFlags :: u8

text \<open>Modelled from the spec: the crowd library's agent (\<^verbatim>\<open>dtCrowdAgent\<close>) is declared
  outside the sources. The scene reads its position, velocity, corner count and
  parameters; its movement target is what a move request sets and a reset clears.\<close>

record dtCrowdAgent =
  npos :: vec3
  vel :: vec3
  ncorners :: int
  params :: dtCrowdAgentParams
  target :: "(dtPolyRef \<times> vec3) option"

text \<open>Modelled from the spec: a crowd context of fixed agent capacity, holding the live
  agents by handle.\<close>

record dtCrowd =
  cr_maxAgents :: int
  cr_maxAgentRadius :: f32
  cr_agents :: "int \<rightharpoonup> dtCrowdAgent"

record detour =
  dtAllocNavMesh :: bool
  dtAllocNavMeshQuery :: bool
  navquery_init_ok :: "dtNavMesh \<Rightarrow> int \<Rightarrow> bool"
  navmesh_init_ok :: "dtNavMeshParams \<Rightarrow> bool"
  addTile_ok :: "dtNavMesh \<Rightarrow> u8 list \<Rightarrow> i32 \<Rightarrow> bool"
  tile_header_xy :: "u8 list \<Rightarrow> i32 \<times> i32"
  tile_header_polyCount :: "u8 list \<Rightarrow> i32"
  tile_header_vertCount :: "u8 list \<Rightarrow> i32"
  dtCreateNavMeshData :: "dtNavMeshCreateParams \<Rightarrow> (u8 list \<times> i32) option"
  findNearestPoly :: "dtNavMesh \<Rightarrow> vec3 \<Rightarrow> vec3 \<Rightarrow> dtPolyRef"
  dtAllocCrowd :: bool
  crowd_init_ok :: "int \<Rightarrow> f32 \<Rightarrow> dtNavMesh option \<Rightarrow> bool"
  crowd_update :: "dtCrowd \<Rightarrow> f32 \<Rightarrow> dtCrowd"
  addAgent_slot :: "dtCrowd \<Rightarrow> vec3 \<Rightarrow> dtCrowdAgentParams \<Rightarrow> int"
  requestMoveTarget_ok :: "dtCrowd \<Rightarrow> int \<Rightarrow> dtPolyRef \<Rightarrow> vec3 \<Rightarrow> bool"
  DT_CROWD_ANTICIPATE_TURNS :: u8
  DT_CROWD_SEPARATION :: u8
  DT_CROWD_OBSTACLE_AVOIDANCE :: u8
  DT_CROWD_OPTIMIZE_TOPO :: u8
  DT_CROWD_OPTIMIZE_VIS :: u8

text \<open>Modelled from the spec: the crowd library's operations on the context. The
  decisions the library takes (which slot a new agent gets, whether a move request is
  accepted, how a step moves the agents) are the parameters above.\<close>

definition getAgent :: "dtCrowd \<Rightarrow> int \<Rightarrow> dtCrowdAgent option" where
  "getAgent c idx = cr_agents c idx"

definition removeAgent :: "dtCrowd \<Rightarrow> int \<Rightarrow> dtCrowd" where
  "removeAgent c idx = c\<lparr>cr_agents := (cr_agents c)(idx := None)\<rparr>"

definition addAgent :: "detour \<Rightarrow> dtCrowd \<Rightarrow> vec3 \<Rightarrow> dtCrowdAgentParams \<Rightarrow> int \<times> dtCrowd" where
  "addAgent dt c pos p =
     (let idx = addAgent_slot dt c pos p
      in if idx < 0 then (idx, c)
         else (idx, c\<lparr>cr_agents := (cr_agents c)(idx \<mapsto>
                 \<lparr>npos = pos, vel = Vec3 f_0 f_0 f_0, ncorners = 0, params = p, target = None\<rparr>)\<rparr>))"

definition updateAgentParameters :: "dtCrowd \<Rightarrow> int \<Rightarrow> dtCrowdAgentParams \<Rightarrow> dtCrowd" where
  "updateAgentParameters c idx p =
     (case cr_agents c idx of
        None \<Rightarrow> c
      | Some a \<Rightarrow> c\<lparr>cr_agents := (cr_agents c)(idx \<mapsto> a\<lparr>params := p\<rparr>)\<rparr>)"

definition requestMoveTarget ::
  "detour \<Rightarrow> dtCrowd \<Rightarrow> int \<Rightarrow> dtPolyRef \<Rightarrow> vec3 \<Rightarrow> bool \<times> dtCrowd" where
  "requestMoveTarget dt c idx ref pos =
     (case cr_agents c idx of
        None \<Rightarrow> (False, c)
      | Some a \<Rightarrow>
          if requestMoveTarget_ok dt c idx ref pos
          then (True, c\<lparr>cr_agents := (cr_agents c)(idx \<mapsto> a\<lparr>target := Some (ref, pos)\<rparr>)\<rparr>)
          else (False, c))"

definition resetMoveTarget :: "dtCrowd \<Rightarrow> int \<Rightarrow> dtCrowd" where
  "resetMoveTarget c idx =
     (case cr_agents c idx of
        None \<Rightarrow> c
      | Some a \<Rightarrow> c\<lparr>cr_agents := (cr_agents c)(idx \<mapsto> a\<lparr>target := None\<rparr>)\<rparr>)"

text \<open>Modelled from the spec: the operations of the tile store. \<^verbatim>\<open>init\<close> keeps the
  parameters when the library accepts them; \<^verbatim>\<open>addTile\<close> files an accepted blob under the
  coordinate of its header; removing an absent tile is a no-op. A rejected call leaves the
  store as it was.\<close>

definition dtNavMesh_init :: "detour \<Rightarrow> dtNavMesh \<Rightarrow> dtNavMeshParams \<Rightarrow> dtNavMesh option" where
  "dtNavMesh_init dt nm p = (if navmesh_init_ok dt p then Some (nm\<lparr>nm_params := Some p\<rparr>) else None)"

definition addTile :: "detour \<Rightarrow> dtNavMesh \<Rightarrow> u8 list \<Rightarrow> i32 \<Rightarrow> dtNavMesh option" where
  "addTile dt nm d n =
     (if addTile_ok dt nm d n
      then Some (nm\<lparr>nm_tiles := (nm_tiles nm)(tile_header_xy dt d \<mapsto> \<lparr>dataSize = n, data = d\<rparr>)\<rparr>)
      else None)"

definition removeTile :: "dtNavMesh \<Rightarrow> i32 \<times> i32 \<Rightarrow> dtNavMesh" where
  "removeTile nm xz = nm\<lparr>nm_tiles := (nm_tiles nm)(xz := None)\<rparr>"

definition getTileAt :: "dtNavMesh \<Rightarrow> i32 \<Rightarrow> i32 \<Rightarrow> dtMeshTile option" where
  "getTileAt nm x z = nm_tiles nm (x, z)"

section \<open>The navigation scene\<close>

record Agent =
  entity :: entity
  radius :: f32
  height :: f32
  agent :: int
  is_finished :: bool

text \<open>The members of \<^verbatim>\<open>NavigationSceneImpl\<close>. A pointer member is an option (\<open>None\<close> is
  \<^verbatim>\<open>nullptr\<close>). \<^verbatim>\<open>m_agents\<close> is a hash map from the entity to its agent; each agent
  carries its entity, so the map is the list of its agents in iteration order and a
  lookup finds the first agent of the entity.\<close>

record ('h, 'c, 's) scene =
  m_universe :: universe
  m_polymesh :: "rcPolyMesh option"
  m_navmesh :: "dtNavMesh option"
  m_navquery :: "unit option"
  m_detail_mesh :: "rcPolyMeshDetail option"
  m_agents :: "Agent list"
  m_debug_compact_heightfield :: "'c option"
  m_debug_heightfield :: "'h option"
  m_debug_contours :: "'s option"
  m_debug_tile_origin :: vec3
  m_aabb :: AABB
  m_config :: rcConfig
  m_num_tiles_x :: i32
  m_num_tiles_z :: i32
  m_script_scene :: "script_scene option"
  m_crowd :: "dtCrowd option"

fun agents_find :: "Agent list \<Rightarrow> entity \<Rightarrow> Agent option" where
  "agents_find [] e = None"
| "agents_find (a # as) e = (if entity a = e then Some a else agents_find as e)"

fun agents_modify :: "entity \<Rightarrow> (Agent \<Rightarrow> Agent) \<Rightarrow> Agent list \<Rightarrow> Agent list" where
  "agents_modify e f [] = []"
| "agents_modify e f (a # as) = (if entity a = e then f a # as else a # agents_modify e f as)"

subsection \<open>Crowd agents\<close>

definition addCrowdAgent :: "fpu \<Rightarrow> detour \<Rightarrow> universe \<Rightarrow> dtCrowd \<Rightarrow> Agent \<Rightarrow> Agent \<times> dtCrowd" where
  "addCrowdAgent fp dt u c a =
     (let pos = getPosition u (entity a);
          p = \<lparr>ap_radius = radius a,
               ap_height = height a,
               ap_maxAcceleration = f_10,
               ap_maxSpeed = f_10,
               ap_collisionQueryRange = fmul fp (radius a) f_12,
               ap_pathOptimizationRange = fmul fp (radius a) f_30,
               ap_updateFlags = DT_CROWD_ANTICIPATE_TURNS dt OR DT_CROWD_SEPARATION dt
                 OR DT_CROWD_OBSTACLE_AVOIDANCE dt OR DT_CROWD_OPTIMIZE_TOPO dt
                 OR DT_CROWD_OPTIMIZE_VIS dt\<rparr>;
          r = addAgent dt c pos p
      in (a\<lparr>agent := fst r\<rparr>, snd r))"

text \<open>\<^verbatim>\<open>onEntityMoved\<close>: the handler of the universe's entity-transformed signal. It
  dereferences \<^verbatim>\<open>m_crowd\<close> and the crowd agent without a check; \<open>None\<close> is the undefined
  behaviour of dereferencing a null crowd or an agent slot that is not live.\<close>

definition onEntityMoved ::
  "fpu \<Rightarrow> detour \<Rightarrow> ('h, 'c, 's) scene \<Rightarrow> entity \<Rightarrow> ('h, 'c, 's) scene option" where
  "onEntityMoved fp dt s e =
     (case agents_find (m_agents s) e of
        None \<Rightarrow> Some s
      | Some a \<Rightarrow>
          let pos = getPosition (m_universe s) e
          in (case m_crowd s of
                None \<Rightarrow> None
              | Some c \<Rightarrow>
                  (case getAgent c (agent a) of
                     None \<Rightarrow> None
                   | Some dt_agent \<Rightarrow>
                       if fgt fp (squaredLength fp (vsub fp pos (npos dt_agent))) f_0_1
                       then
                         let r = addCrowdAgent fp dt (m_universe s) (removeAgent c (agent a)) a
                         in Some (s\<lparr>m_agents := agents_modify e (\<lambda>_. fst r) (m_agents s),
                                    m_crowd := Some (snd r)\<rparr>)
                       else Some s)))"

subsection \<open>The simulation step\<close>

text \<open>\<^verbatim>\<open>onPathFinished\<close> calls the function \<^verbatim>\<open>onPathFinished\<close> of every script of the
  agent's entity that has one; the result is the list of the calls made, as (component,
  script index).\<close>

definition onPathFinished :: "script_scene option \<Rightarrow> Agent \<Rightarrow> (int \<times> int) list" where
  "onPathFinished sc a =
     (case sc of
        None \<Rightarrow> []
      | Some scr \<Rightarrow>
          let cmp = script_component scr (entity a)
          in if cmp = INVALID_COMPONENT then []
             else map (\<lambda>i. (cmp, i))
                    (filter (\<lambda>i. begin_function_call scr cmp i ''onPathFinished'')
                       (map int [0..<nat (script_count scr cmp)])))"

text \<open>A step reports the notifications it raised: one \<open>PathFinished\<close> for every call of
  \<^verbatim>\<open>onPathFinished\<close>, with the script calls that call made.\<close>

datatype event = PathFinished entity "(int \<times> int) list"

fun event_entity :: "event \<Rightarrow> entity" where
  "event_entity (PathFinished e calls) = e"

text \<open>The body of the loop over \<^verbatim>\<open>m_agents\<close> in \<^verbatim>\<open>update\<close>, for one agent: the new
  universe, the agent, the crowd and the notifications raised.\<close>

definition update_agent ::
  "fpu \<Rightarrow> engine \<Rightarrow> script_scene option \<Rightarrow> Agent \<Rightarrow> dtCrowd \<Rightarrow> universe
     \<Rightarrow> (Agent \<times> dtCrowd \<times> universe \<times> event list) option" where
  "update_agent fp en sc a c u =
     (case getAgent c (agent a) of
        None \<Rightarrow> None
      | Some dt_agent \<Rightarrow>
          let u1 = setPosition u (entity a) (npos dt_agent);
              velocity = vel dt_agent;
              speed = vlength fp velocity;
              u2 = (if fgt fp speed f_0
                    then
                      let velocity1 = vscale fp velocity (fdiv fp f_1 speed);
                          yaw = fatan2 fp (vx velocity1) (vz velocity1)
                      in setRotation u1 (entity a) (quat_axis_angle en (Vec3 f_0 f_1 f_0) yaw)
                    else u1)
          in if ncorners dt_agent = 0
             then
               if \<not> is_finished a
               then Some (a\<lparr>is_finished := True\<rparr>, resetMoveTarget c (agent a), u2,
                          [PathFinished (entity a) (onPathFinished sc a)])
               else Some (a, c, u2, [])
             else Some (a\<lparr>is_finished := False\<rparr>, c, u2, []))"

fun update_agents ::
  "fpu \<Rightarrow> engine \<Rightarrow> script_scene option \<Rightarrow> Agent list \<Rightarrow> dtCrowd \<Rightarrow> universe
     \<Rightarrow> (Agent list \<times> dtCrowd \<times> universe \<times> event list) option" where
  "update_agents fp en sc [] c u = Some ([], c, u, [])"
| "update_agents fp en sc (a # as) c u =
     (case update_agent fp en sc a c u of
        None \<Rightarrow> None
      | Some (a1, c1, u1, ev) \<Rightarrow>
          (case update_agents fp en sc as c1 u1 of
             None \<Rightarrow> None
           | Some (as1, c2, u2, evs) \<Rightarrow> Some (a1 # as1, c2, u2, ev @ evs)))"

definition update ::
  "fpu \<Rightarrow> engine \<Rightarrow> detour \<Rightarrow> f32 \<Rightarrow> bool \<Rightarrow> ('h, 'c, 's) scene
     \<Rightarrow> (('h, 'c, 's) scene \<times> event list) option" where
  "update fp en dt time_delta paused s =
     (case m_crowd s of
        None \<Rightarrow> Some (s, [])
      | Some c \<Rightarrow>
          (case update_agents fp en (m_script_scene s) (m_agents s)
                  (crowd_update dt c time_delta) (m_universe s) of
             None \<Rightarrow> None
           | Some (as1, c1, u1, evs) \<Rightarrow>
               Some (s\<lparr>m_universe := u1, m_agents := as1, m_crowd := Some c1\<rparr>, evs)))"

subsection \<open>Move requests\<close>

definition navigate ::
  "detour \<Rightarrow> ('h, 'c, 's) scene \<Rightarrow> entity \<Rightarrow> vec3 \<Rightarrow> f32 \<Rightarrow> (bool \<times> ('h, 'c, 's) scene) option" where
  "navigate dt s e dest speed =
     (if m_navquery s = None then Some (False, s)
      else case m_crowd s of
        None \<Rightarrow> Some (False, s)
      | Some c \<Rightarrow>
          if e = INVALID_ENTITY then Some (False, s)
          else case agents_find (m_agents s) e of
            None \<Rightarrow> Some (False, s)
          | Some a \<Rightarrow>
              (case m_navmesh s of
                 None \<Rightarrow> None
               | Some nm \<Rightarrow>
                   let end_poly_ref = findNearestPoly dt nm dest (Vec3 f_1 f_2 f_1)
                   in (case getAgent c (agent a) of
                         None \<Rightarrow> None
                       | Some dt_agent \<Rightarrow>
                           let p = (params dt_agent)\<lparr>ap_maxSpeed := speed\<rparr>;
                               c1 = updateAgentParameters c (agent a) p;
                               r = requestMoveTarget dt c1 (agent a) end_poly_ref dest
                           in Some (fst r, s\<lparr>m_crowd := Some (snd r)\<rparr>))))"

subsection \<open>Geometry sampling\<close>

text \<open>The area a triangle is rasterized with: \<^verbatim>\<open>RC_WALKABLE_AREA\<close> when the up-component
  of its normal exceeds the threshold (and, for a mesh, its material is not nonwalkable),
  else 0, the library's null area.\<close>

definition mesh_threshold :: "fpu \<Rightarrow> engine \<Rightarrow> f32" where
  "mesh_threshold fp en = fcos fp (degreesToRadians en f_45)"

definition terrain_threshold :: "fpu \<Rightarrow> engine \<Rightarrow> f32" where
  "terrain_threshold fp en = fcos fp (degreesToRadians en f_60)"

definition mesh_normal :: "fpu \<Rightarrow> vec3 \<Rightarrow> vec3 \<Rightarrow> vec3 \<Rightarrow> vec3" where
  "mesh_normal fp a b c = normalized fp (crossProduct fp (vsub fp a b) (vsub fp a c))"

definition terrain_normal :: "fpu \<Rightarrow> vec3 \<Rightarrow> vec3 \<Rightarrow> vec3 \<Rightarrow> vec3" where
  "terrain_normal fp p0 p1 p2 = normalized fp (crossProduct fp (vsub fp p1 p0) (vsub fp p0 p2))"

text \<open>An array read: \<open>None\<close> is a read outside the array.\<close>

definition array_at :: "'a list \<Rightarrow> int \<Rightarrow> 'a option" where
  "array_at xs i = (if 0 \<le> i \<and> i < int (length xs) then Some (xs ! nat i) else None)"

text \<open>C++ division of ints truncates towards zero.\<close>

definition c_div :: "i32 \<Rightarrow> i32 \<Rightarrow> i32" where
  "c_div a b = word_of_int (sgn (sint a) * sgn (sint b) * (\<bar>sint a\<bar> div \<bar>sint b\<bar>))"

text \<open>The vertex a mesh's index at position \<open>k\<close> names, moved to world space:
  \<^verbatim>\<open>mtx.multiplyPosition(vertices[indices[mesh.indices_offset + k]])\<close>, where
  \<^verbatim>\<open>vertices\<close> starts at \<^verbatim>\<open>attribute_array_offset / stride\<close>.\<close>

definition mesh_vertex ::
  "engine \<Rightarrow> bool \<Rightarrow> matrix \<Rightarrow> model \<Rightarrow> mesh \<Rightarrow> int \<Rightarrow> vec3 option" where
  "mesh_vertex en is16 mtx md m k =
     (let base = sint (c_div (attribute_array_offset m) (model_stride md));
          pos = sint (indices_offset m) + k;
          ix = (if is16 then map_option uint (array_at (model_indices16 md) pos)
                else map_option uint (array_at (model_indices32 md) pos))
      in case ix of
           None \<Rightarrow> None
         | Some i \<Rightarrow> map_option (multiplyPosition en mtx) (array_at (model_vertices md) (base + i)))"

text \<open>The loop \<^verbatim>\<open>for (i = 0; i < mesh.indices_count; i += 3)\<close> over the triangles of a
  mesh, for the triangles starting at the index positions \<open>ks\<close>.\<close>

fun rasterize_triangles ::
  "fpu \<Rightarrow> engine \<Rightarrow> ('h, 'c, 's) recast \<Rightarrow> bool \<Rightarrow> matrix \<Rightarrow> model \<Rightarrow> mesh \<Rightarrow> int list
     \<Rightarrow> 'h \<Rightarrow> 'h option" where
  "rasterize_triangles fp en rc is16 mtx md m [] solid = Some solid"
| "rasterize_triangles fp en rc is16 mtx md m (i # ks) solid =
     (case mesh_vertex en is16 mtx md m i of None \<Rightarrow> None | Some a \<Rightarrow>
      (case mesh_vertex en is16 mtx md m (i + 1) of None \<Rightarrow> None | Some b \<Rightarrow>
       (case mesh_vertex en is16 mtx md m (i + 2) of None \<Rightarrow> None | Some c \<Rightarrow>
          let n = mesh_normal fp a b c;
              area = (if fgt fp (vy n) (mesh_threshold fp en) \<and> \<not> nonwalkable m
                      then RC_WALKABLE_AREA rc else 0)
          in rasterize_triangles fp en rc is16 mtx md m ks
               (rcRasterizeTriangle rc a b c area solid))))"

definition triangle_starts :: "mesh \<Rightarrow> int list" where
  "triangle_starts m = map (\<lambda>k. 3 * int k) [0..<(nat (sint (indices_count m)) + 2) div 3]"

text \<open>The loop over the meshes of level of detail 0, \<^verbatim>\<open>lod.from\<close> to \<^verbatim>\<open>lod.to\<close>.\<close>

fun rasterize_lod ::
  "fpu \<Rightarrow> engine \<Rightarrow> ('h, 'c, 's) recast \<Rightarrow> bool \<Rightarrow> matrix \<Rightarrow> model \<Rightarrow> int list
     \<Rightarrow> 'h \<Rightarrow> 'h option" where
  "rasterize_lod fp en rc is16 mtx md [] solid = Some solid"
| "rasterize_lod fp en rc is16 mtx md (mesh_idx # rest) solid =
     (case array_at (model_meshes md) mesh_idx of
        None \<Rightarrow> None
      | Some m \<Rightarrow>
          if no_navigation m then rasterize_lod fp en rc is16 mtx md rest solid
          else (case rasterize_triangles fp en rc is16 mtx md m (triangle_starts m) solid of
                  None \<Rightarrow> None
                | Some solid1 \<Rightarrow> rasterize_lod fp en rc is16 mtx md rest solid1))"

text \<open>The loop over the renderables. A renderable without a model ends the whole
  function (\<^verbatim>\<open>if (!model) return;\<close>).\<close>

fun rasterize_renderables ::
  "fpu \<Rightarrow> engine \<Rightarrow> ('h, 'c, 's) recast \<Rightarrow> universe \<Rightarrow> AABB \<Rightarrow> renderable list
     \<Rightarrow> 'h \<Rightarrow> 'h option" where
  "rasterize_renderables fp en rc u aabb [] solid = Some solid"
| "rasterize_renderables fp en rc u aabb (r # rs) solid =
     (case renderable_model r of
        None \<Rightarrow> Some solid
      | Some md \<Rightarrow>
          let is16 = (model_flags md AND INDICES_16BIT en \<noteq> 0);
              mtx = getMatrix en u (renderable_entity r);
              bb = aabb_transform en (model_aabb md) mtx
          in if \<not> aabb_overlaps en bb aabb then rasterize_renderables fp en rc u aabb rs solid
             else (case rasterize_lod fp en rc is16 mtx md
                          [sint (model_lod0_from md)..sint (model_lod0_to md)] solid of
                     None \<Rightarrow> None
                   | Some solid1 \<Rightarrow> rasterize_renderables fp en rc u aabb rs solid1))"

definition rasterizeMeshes ::
  "fpu \<Rightarrow> engine \<Rightarrow> ('h, 'c, 's) recast \<Rightarrow> universe \<Rightarrow> AABB \<Rightarrow> 'h \<Rightarrow> 'h option" where
  "rasterizeMeshes fp en rc u aabb solid =
     (case render u of
        None \<Rightarrow> Some solid
      | Some rs \<Rightarrow> rasterize_renderables fp en rc u aabb (renderables rs) solid)"

definition getTerrainSpaceAABB :: "engine \<Rightarrow> vec3 \<Rightarrow> quat \<Rightarrow> AABB \<Rightarrow> AABB" where
  "getTerrainSpaceAABB en terrain_pos terrain_rot aabb_world_space =
     aabb_transform en aabb_world_space
       (fastInverse en (setTranslation en (quat_toMatrix en terrain_rot) terrain_pos))"

text \<open>The body of the two loops over a terrain's grid, for the cell \<open>(i, j)\<close>: the four
  corners of the cell and its two triangles.\<close>

definition terrain_point :: "fpu \<Rightarrow> engine \<Rightarrow> universe \<Rightarrow> terrain \<Rightarrow> i32 \<Rightarrow> i32 \<Rightarrow> vec3" where
  "terrain_point fp en u t i j =
     (let x = fmul fp (i2f fp i) (terrain_xz_scale t);
          z = fmul fp (i2f fp j) (terrain_xz_scale t);
          h = terrain_height_at t x z
      in vadd fp (getPosition u (terrain_entity t))
           (quat_rotate en (getRotation u (terrain_entity t)) (Vec3 x h z)))"

definition terrain_area :: "fpu \<Rightarrow> engine \<Rightarrow> ('h, 'c, 's) recast \<Rightarrow> vec3 \<Rightarrow> u8" where
  "terrain_area fp en rc n =
     (if fgt fp (vy n) (terrain_threshold fp en) then RC_WALKABLE_AREA rc else 0)"

definition rasterize_cell ::
  "fpu \<Rightarrow> engine \<Rightarrow> ('h, 'c, 's) recast \<Rightarrow> universe \<Rightarrow> terrain \<Rightarrow> i32 \<Rightarrow> i32 \<Rightarrow> 'h \<Rightarrow> 'h" where
  "rasterize_cell fp en rc u t i j solid =
     (let p0 = terrain_point fp en u t i j;
          p1 = terrain_point fp en u t (i + 1) j;
          p2 = terrain_point fp en u t (i + 1) (j + 1);
          p3 = terrain_point fp en u t i (j + 1);
          solid1 = rcRasterizeTriangle rc p0 p1 p2
                     (terrain_area fp en rc (terrain_normal fp p0 p1 p2)) solid
      in rcRasterizeTriangle rc p0 p2 p3
           (terrain_area fp en rc (terrain_normal fp p0 p2 p3)) solid1)"

text \<open>The cells of a terrain that the loops visit: rows \<open>from_z\<close> to \<open>to_z - 1\<close>, and in
  each row the columns \<open>from_x\<close> to \<open>to_x - 1\<close>.\<close>

definition terrain_cells :: "fpu \<Rightarrow> engine \<Rightarrow> universe \<Rightarrow> terrain \<Rightarrow> AABB \<Rightarrow> (i32 \<times> i32) list" where
  "terrain_cells fp en u t aabb =
     (let scaleXZ = terrain_xz_scale t;
          res = terrain_resolution t;
          bb = getTerrainSpaceAABB en (getPosition u (terrain_entity t))
                 (getRotation u (terrain_entity t)) aabb;
          from_z = f2i fp (clamp en (fsub fp (fdiv fp (vz (aabb_min bb)) scaleXZ) f_1) f_0
                     (fsub fp (snd res) f_1));
          to_z = f2i fp (clamp en (fadd fp (fdiv fp (vz (aabb_max bb)) scaleXZ) f_1) f_0
                   (fsub fp (snd res) f_1));
          from_x = f2i fp (clamp en (fsub fp (fdiv fp (vx (aabb_min bb)) scaleXZ) f_1) f_0
                     (fsub fp (fst res) f_1));
          to_x = f2i fp (clamp en (fadd fp (fdiv fp (vx (aabb_max bb)) scaleXZ) f_1) f_0
                   (fsub fp (fst res) f_1))
      in concat (map (\<lambda>j. map (\<lambda>i. (word_of_int i, word_of_int j)) [sint from_x..sint to_x - 1])
                   [sint from_z..sint to_z - 1]))"

definition rasterize_terrain ::
  "fpu \<Rightarrow> engine \<Rightarrow> ('h, 'c, 's) recast \<Rightarrow> universe \<Rightarrow> AABB \<Rightarrow> terrain \<Rightarrow> 'h \<Rightarrow> 'h" where
  "rasterize_terrain fp en rc u aabb t solid =
     fold (\<lambda>(i, j). rasterize_cell fp en rc u t i j) (terrain_cells fp en u t aabb) solid"

definition rasterizeTerrains ::
  "fpu \<Rightarrow> engine \<Rightarrow> ('h, 'c, 's) recast \<Rightarrow> universe \<Rightarrow> AABB \<Rightarrow> 'h \<Rightarrow> 'h" where
  "rasterizeTerrains fp en rc u aabb solid =
     (case render u of
        None \<Rightarrow> solid
      | Some rs \<Rightarrow> fold (rasterize_terrain fp en rc u aabb) (terrains rs) solid)"

definition rasterizeGeometry ::
  "fpu \<Rightarrow> engine \<Rightarrow> ('h, 'c, 's) recast \<Rightarrow> universe \<Rightarrow> AABB \<Rightarrow> 'h \<Rightarrow> 'h option" where
  "rasterizeGeometry fp en rc u aabb solid =
     map_option (rasterizeTerrains fp en rc u aabb) (rasterizeMeshes fp en rc u aabb solid)"

subsection \<open>Allocation and release\<close>

definition clear :: "('h, 'c, 's) scene \<Rightarrow> ('h, 'c, 's) scene" where
  "clear s =
     s\<lparr>m_detail_mesh := None,
       m_polymesh := None,
       m_navquery := None,
       m_navmesh := None,
       m_crowd := None,
       m_debug_compact_heightfield := None,
       m_debug_heightfield := None,
       m_debug_contours := None\<rparr>"

definition isNavmeshReady :: "('h, 'c, 's) scene \<Rightarrow> bool" where
  "isNavmeshReady s = (m_navmesh s \<noteq> None)"

definition initNavmesh :: "detour \<Rightarrow> ('h, 'c, 's) scene \<Rightarrow> bool \<times> ('h, 'c, 's) scene" where
  "initNavmesh dt s =
     (if \<not> dtAllocNavMesh dt then (False, s\<lparr>m_navmesh := None\<rparr>)
      else
        let nm = \<lparr>nm_params = None, nm_tiles = Map.empty\<rparr>;
            s1 = s\<lparr>m_navmesh := Some nm\<rparr>
        in if \<not> dtAllocNavMeshQuery dt then (False, s1\<lparr>m_navquery := None\<rparr>)
           else
             let s2 = s1\<lparr>m_navquery := Some ()\<rparr>
             in if \<not> navquery_init_ok dt nm 2048 then (False, s2) else (True, s2))"

fun addCrowdAgents ::
  "fpu \<Rightarrow> detour \<Rightarrow> universe \<Rightarrow> Agent list \<Rightarrow> dtCrowd \<Rightarrow> Agent list \<times> dtCrowd" where
  "addCrowdAgents fp dt u [] c = ([], c)"
| "addCrowdAgents fp dt u (a # as) c =
     (let r = addCrowdAgent fp dt u c a;
          rs = addCrowdAgents fp dt u as (snd r)
      in (fst r # fst rs, snd rs))"

text \<open>\<^verbatim>\<open>initCrowd\<close> does not check the crowd it allocates; \<open>None\<close> is the dereference of
  a null crowd.\<close>

definition initCrowd ::
  "fpu \<Rightarrow> detour \<Rightarrow> ('h, 'c, 's) scene \<Rightarrow> (bool \<times> ('h, 'c, 's) scene) option" where
  "initCrowd fp dt s =
     (if \<not> dtAllocCrowd dt then None
      else if \<not> crowd_init_ok dt 1000 f_4 (m_navmesh s) then Some (False, s\<lparr>m_crowd := None\<rparr>)
      else
        let r = addCrowdAgents fp dt (m_universe s) (m_agents s)
                  \<lparr>cr_maxAgents = 1000, cr_maxAgentRadius = f_4, cr_agents = Map.empty\<rparr>
        in Some (True, s\<lparr>m_agents := fst r, m_crowd := Some (snd r)\<rparr>))"

text \<open>The tile coordinates of the grid in the order of the two loops
  \<^verbatim>\<open>for (j < m_num_tiles_z) for (i < m_num_tiles_x)\<close>: z outside, x inside.\<close>

definition tile_coords :: "i32 \<Rightarrow> i32 \<Rightarrow> (i32 \<times> i32) list" where
  "tile_coords nx nz =
     concat (map (\<lambda>j. map (\<lambda>i. (word_of_nat i, word_of_nat j)) [0..<nat (sint nx)])
               [0..<nat (sint nz)])"

subsection \<open>Building a tile\<close>

text \<open>A debug pointer keeps the buffer when the caller asked for it with
  \<^verbatim>\<open>keep_data\<close>, and is null otherwise. It aliases the buffer, so at every return it holds
  the buffer as the last stage left it.\<close>

definition retain :: "bool \<Rightarrow> 'a \<Rightarrow> 'a option" where
  "retain keep_data buf = (if keep_data then Some buf else None)"

text \<open>The loop that flags every walkable polygon with 1 and every other with 0.\<close>

definition set_poly_flags :: "('h, 'c, 's) recast \<Rightarrow> rcPolyMesh \<Rightarrow> rcPolyMesh" where
  "set_poly_flags rc pm =
     pm\<lparr>pm_flags :=
          fold (\<lambda>i fl. fl[i := (if pm_areas pm ! i = RC_WALKABLE_AREA rc then 1 else 0)])
            [0..<nat (sint (pm_npolys pm))] (pm_flags pm)\<rparr>"

definition create_params ::
  "fpu \<Rightarrow> rcConfig \<Rightarrow> rcPolyMesh \<Rightarrow> rcPolyMeshDetail \<Rightarrow> i32 \<Rightarrow> i32 \<Rightarrow> dtNavMeshCreateParams" where
  "create_params fp cfg pm dm x z =
     \<lparr>cp_verts = pm_verts pm,
      cp_vertCount = pm_nverts pm,
      cp_polys = pm_polys pm,
      cp_polyAreas = pm_areas pm,
      cp_polyFlags = pm_flags pm,
      cp_polyCount = pm_npolys pm,
      cp_nvp = pm_nvp pm,
      cp_detailMeshes = dm_meshes dm,
      cp_detailVerts = dm_verts dm,
      cp_detailVertsCount = dm_nverts dm,
      cp_detailTris = dm_tris dm,
      cp_detailTriCount = dm_ntris dm,
      cp_walkableHeight = i2f fp (cfg_walkableHeight cfg),
      cp_walkableRadius = i2f fp (cfg_walkableRadius cfg),
      cp_walkableClimb = i2f fp (cfg_walkableClimb cfg),
      cp_tileX = x,
      cp_tileY = z,
      cp_bmin = pm_bmin pm,
      cp_bmax = pm_bmax pm,
      cp_cs = cfg_cs cfg,
      cp_ch = cfg_ch cfg,
      cp_buildBvTree = False\<rparr>"

text \<open>The bounds of tile \<open>(x, z)\<close>, widened by the border.\<close>

definition tile_bmin :: "fpu \<Rightarrow> ('h, 'c, 's) scene \<Rightarrow> i32 \<Rightarrow> i32 \<Rightarrow> vec3" where
  "tile_bmin fp s x z =
     (let margin = fmul fp (i2f fp (1 + cfg_borderSize (m_config s))) (cfg_cs (m_config s))
      in Vec3
           (fsub fp (fadd fp (vx (aabb_min (m_aabb s)))
                       (fmul fp (i2f fp (x * CELLS_PER_TILE_SIDE)) CELL_SIZE)) margin)
           (vy (aabb_min (m_aabb s)))
           (fsub fp (fadd fp (vz (aabb_min (m_aabb s)))
                       (fmul fp (i2f fp (z * CELLS_PER_TILE_SIDE)) CELL_SIZE)) margin))"

definition tile_bmax :: "fpu \<Rightarrow> ('h, 'c, 's) scene \<Rightarrow> vec3 \<Rightarrow> vec3" where
  "tile_bmax fp s bmin =
     (let margin = fmul fp (i2f fp (1 + cfg_borderSize (m_config s))) (cfg_cs (m_config s));
          side = fmul fp (i2f fp CELLS_PER_TILE_SIDE) CELL_SIZE
      in Vec3
           (fadd fp (fadd fp (vx bmin) side) margin)
           (vy (aabb_max (m_aabb s)))
           (fadd fp (fadd fp (vz bmin) side) margin))"

definition tile_config :: "fpu \<Rightarrow> ('h, 'c, 's) scene \<Rightarrow> i32 \<Rightarrow> i32 \<Rightarrow> rcConfig" where
  "tile_config fp s x z =
     (m_config s)\<lparr>cfg_bmin := tile_bmin fp s x z,
                  cfg_bmax := tile_bmax fp s (tile_bmin fp s x z)\<rparr>"

text \<open>The three span filters, in the order of the source.\<close>

definition filter_spans :: "('h, 'c, 's) recast \<Rightarrow> rcConfig \<Rightarrow> 'h \<Rightarrow> 'h" where
  "filter_spans rc cfg solid =
     rcFilterWalkableLowHeightSpans rc (cfg_walkableHeight cfg)
       (rcFilterLedgeSpans rc (cfg_walkableHeight cfg) (cfg_walkableClimb cfg)
          (rcFilterLowHangingWalkableObstacles rc (cfg_walkableClimb cfg) solid))"

text \<open>\<^verbatim>\<open>generateTile\<close>. Every \<^verbatim>\<open>return false\<close> of the source is a branch that yields
  \<open>False\<close> with the scene as it stands there. \<open>None\<close> is an array read outside a model's
  buffers during rasterization.\<close>

definition generateTile ::
  "fpu \<Rightarrow> engine \<Rightarrow> ('h, 'c, 's) recast \<Rightarrow> detour \<Rightarrow> i32 \<Rightarrow> i32 \<Rightarrow> bool \<Rightarrow> ('h, 'c, 's) scene
     \<Rightarrow> (bool \<times> ('h, 'c, 's) scene) option" where
  "generateTile fp en rc dt x z keep_data s =
     (case m_navmesh s of
        None \<Rightarrow> Some (False, s)
      | Some nm0 \<Rightarrow>
          let nm = removeTile nm0 (x, z);
              cfg = tile_config fp s x z;
              bmin = cfg_bmin cfg;
              bmax = cfg_bmax cfg;
              s1 = s\<lparr>m_navmesh := Some nm,
                     m_debug_tile_origin := (if keep_data then bmin else m_debug_tile_origin s),
                     m_config := cfg\<rparr>
          in (case rcAllocHeightfield rc of
                None \<Rightarrow> Some (False, s1\<lparr>m_debug_heightfield := None\<rparr>)
              | Some solid0 \<Rightarrow>
          let r1 = rcCreateHeightfield rc solid0 (cfg_width cfg) (cfg_height cfg) bmin bmax
                     (cfg_cs cfg) (cfg_ch cfg)
          in if \<not> fst r1 then Some (False, s1\<lparr>m_debug_heightfield := retain keep_data (snd r1)\<rparr>)
             else
          (case rasterizeGeometry fp en rc (m_universe s)
                  \<lparr>aabb_min = bmin, aabb_max = bmax\<rparr> (snd r1) of
             None \<Rightarrow> None
           | Some solid1 \<Rightarrow>
          let solid = filter_spans rc cfg solid1;
              s2 = s1\<lparr>m_debug_heightfield := retain keep_data solid\<rparr>
          in (case rcAllocCompactHeightfield rc of
                None \<Rightarrow> Some (False, s2\<lparr>m_debug_compact_heightfield := None\<rparr>)
              | Some chf0 \<Rightarrow>
          let r2 = rcBuildCompactHeightfield rc (cfg_walkableHeight cfg) (cfg_walkableClimb cfg)
                     solid chf0
          in if \<not> fst r2
             then Some (False, s2\<lparr>m_debug_compact_heightfield := retain keep_data (snd r2)\<rparr>)
             else
          let r3 = rcErodeWalkableArea rc (cfg_walkableRadius cfg) (snd r2)
          in if \<not> fst r3
             then Some (False, s2\<lparr>m_debug_compact_heightfield := retain keep_data (snd r3)\<rparr>)
             else
          let r4 = rcBuildDistanceField rc (snd r3)
          in if \<not> fst r4
             then Some (False, s2\<lparr>m_debug_compact_heightfield := retain keep_data (snd r4)\<rparr>)
             else
          let r5 = rcBuildRegions rc (snd r4) (cfg_borderSize cfg) (cfg_minRegionArea cfg)
                     (cfg_mergeRegionArea cfg)
          in if \<not> fst r5
             then Some (False, s2\<lparr>m_debug_compact_heightfield := retain keep_data (snd r5)\<rparr>)
             else
          let chf = snd r5;
              s3 = s2\<lparr>m_debug_compact_heightfield := retain keep_data chf\<rparr>
          in (case rcAllocContourSet rc of
                None \<Rightarrow> Some (False, s3\<lparr>m_debug_contours := None\<rparr>)
              | Some cset0 \<Rightarrow>
          let r6 = rcBuildContours rc chf (cfg_maxSimplificationError cfg) (cfg_maxEdgeLen cfg)
                     cset0
          in if \<not> fst r6 then Some (False, s3\<lparr>m_debug_contours := retain keep_data (snd r6)\<rparr>)
             else
          let cset = snd r6;
              s4 = s3\<lparr>m_debug_contours := retain keep_data cset\<rparr>
          in (case rcAllocPolyMesh rc of
                None \<Rightarrow> Some (False, s4\<lparr>m_polymesh := None\<rparr>)
              | Some pm0 \<Rightarrow>
          let r7 = rcBuildPolyMesh rc cset (cfg_maxVertsPerPoly cfg) pm0
          in if \<not> fst r7 then Some (False, s4\<lparr>m_polymesh := Some (snd r7)\<rparr>)
             else
          (case rcAllocPolyMeshDetail rc of
             None \<Rightarrow> Some (False, s4\<lparr>m_polymesh := Some (snd r7), m_detail_mesh := None\<rparr>)
           | Some dm0 \<Rightarrow>
          let r8 = rcBuildPolyMeshDetail rc (snd r7) chf (cfg_detailSampleDist cfg)
                     (cfg_detailSampleMaxError cfg) dm0
          in if \<not> fst r8
             then Some (False, s4\<lparr>m_polymesh := Some (snd r7), m_detail_mesh := Some (snd r8)\<rparr>)
             else
          let pm = set_poly_flags rc (snd r7);
              dm = snd r8;
              s5 = s4\<lparr>m_polymesh := Some pm, m_detail_mesh := Some dm\<rparr>
          in (case dtCreateNavMeshData dt (create_params fp cfg pm dm x z) of
                None \<Rightarrow> Some (False, s5)
              | Some (nav_data, nav_data_size) \<Rightarrow>
                  (case addTile dt nm nav_data nav_data_size of
                     None \<Rightarrow> Some (False, s5)
                   | Some nm1 \<Rightarrow> Some (True, s5\<lparr>m_navmesh := Some nm1\<rparr>))))))))))"

definition generateTileAt ::
  "fpu \<Rightarrow> engine \<Rightarrow> ('h, 'c, 's) recast \<Rightarrow> detour \<Rightarrow> vec3 \<Rightarrow> bool \<Rightarrow> ('h, 'c, 's) scene
     \<Rightarrow> (bool \<times> ('h, 'c, 's) scene) option" where
  "generateTileAt fp en rc dt pos keep_data s =
     (let margin = fmul fp (i2f fp (1 + cfg_borderSize (m_config s))) (cfg_cs (m_config s));
          side = fmul fp (i2f fp CELLS_PER_TILE_SIDE) CELL_SIZE;
          x = f2i fp (fdiv fp (fadd fp (fsub fp (vx pos) (vx (aabb_min (m_aabb s)))) margin) side);
          z = f2i fp (fdiv fp (fadd fp (fsub fp (vz pos) (vz (aabb_min (m_aabb s)))) margin) side)
      in generateTile fp en rc dt x z keep_data s)"

subsection \<open>Building the whole navmesh\<close>





subsection \<open>Persistence\<close>

text \<open>A file is its bytes, a file system maps a path to a file. The scene writes its
  members as they lie in memory: a float or an int is four bytes, least significant
  first; \<^verbatim>\<open>AABB\<close> is six floats and \<^verbatim>\<open>dtNavMeshParams\<close> five floats and two ints, without
  padding.\<close>

type_synonym filesystem = "string \<rightharpoonup> u8 list"

definition le32 :: "u32 \<Rightarrow> u8 list" where
  "le32 w = [ucast w, ucast (drop_bit 8 w), ucast (drop_bit 16 w), ucast (drop_bit 24 w)]"

fun word_of_le32 :: "u8 list \<Rightarrow> u32" where
  "word_of_le32 [b0, b1, b2, b3] =
     ucast b0 OR push_bit 8 (ucast b1) OR push_bit 16 (ucast b2) OR push_bit 24 (ucast b3)"
| "word_of_le32 bs = 0"

definition vec3_bytes :: "vec3 \<Rightarrow> u8 list" where
  "vec3_bytes v = le32 (vx v) @ le32 (vy v) @ le32 (vz v)"

definition aabb_bytes :: "AABB \<Rightarrow> u8 list" where
  "aabb_bytes b = vec3_bytes (aabb_min b) @ vec3_bytes (aabb_max b)"

definition params_bytes :: "dtNavMeshParams \<Rightarrow> u8 list" where
  "params_bytes p =
     vec3_bytes (orig p) @ le32 (tileWidth p) @ le32 (tileHeight p) @ le32 (maxTiles p)
       @ le32 (maxPolys p)"

text \<open>The tile loop of \<^verbatim>\<open>save\<close>. It dereferences the tile \<^verbatim>\<open>getTileAt\<close> returns without
  a check and writes \<^verbatim>\<open>dataSize\<close> bytes of its buffer; \<open>None\<close> is the dereference of a
  missing tile or a read beyond the buffer.\<close>

fun save_tiles :: "dtNavMesh \<Rightarrow> (i32 \<times> i32) list \<Rightarrow> u8 list option" where
  "save_tiles nm [] = Some []"
| "save_tiles nm ((i, j) # cs) =
     (case getTileAt nm i j of
        None \<Rightarrow> None
      | Some t \<Rightarrow>
          if sint (dataSize t) < 0 \<or> length (data t) < nat (sint (dataSize t)) then None
          else (case save_tiles nm cs of
                  None \<Rightarrow> None
                | Some bs \<Rightarrow> Some (le32 (dataSize t) @ take (nat (sint (dataSize t))) (data t) @ bs)))"

definition save ::
  "engine \<Rightarrow> string \<Rightarrow> ('h, 'c, 's) scene \<Rightarrow> filesystem \<Rightarrow> (bool \<times> filesystem) option" where
  "save en path s fs =
     (case m_navmesh s of
        None \<Rightarrow> Some (False, fs)
      | Some nm \<Rightarrow>
          if \<not> open_for_writing en path then Some (False, fs)
          else (case nm_params nm of
                  None \<Rightarrow> None
                | Some p \<Rightarrow>
                    (case save_tiles nm (tile_coords (m_num_tiles_x s) (m_num_tiles_z s)) of
                       None \<Rightarrow> None
                     | Some tiles \<Rightarrow>
                         Some (True, fs(path \<mapsto>
                           aabb_bytes (m_aabb s) @ le32 (m_num_tiles_x s) @ le32 (m_num_tiles_z s)
                             @ params_bytes p @ tiles)))))"

text \<open>Reading. \<^verbatim>\<open>load\<close> never looks at what \<^verbatim>\<open>file.read\<close> returns. When the file ends
  before a read is complete, the source goes on with a local variable or a buffer that
  was not filled; \<open>None\<close> is that undefined continuation.\<close>

definition read32 :: "u8 list \<Rightarrow> (u32 \<times> u8 list) option" where
  "read32 bs = (if length bs < 4 then None else Some (word_of_le32 (take 4 bs), drop 4 bs))"

definition read_vec3 :: "u8 list \<Rightarrow> (vec3 \<times> u8 list) option" where
  "read_vec3 bs =
     (case read32 bs of None \<Rightarrow> None | Some (a, bs1) \<Rightarrow>
      (case read32 bs1 of None \<Rightarrow> None | Some (b, bs2) \<Rightarrow>
       (case read32 bs2 of None \<Rightarrow> None | Some (c, bs3) \<Rightarrow> Some (Vec3 a b c, bs3))))"

definition read_aabb :: "u8 list \<Rightarrow> (AABB \<times> u8 list) option" where
  "read_aabb bs =
     (case read_vec3 bs of None \<Rightarrow> None | Some (lo, bs1) \<Rightarrow>
      (case read_vec3 bs1 of None \<Rightarrow> None | Some (hi, bs2) \<Rightarrow>
         Some (\<lparr>aabb_min = lo, aabb_max = hi\<rparr>, bs2)))"

definition read_params :: "u8 list \<Rightarrow> (dtNavMeshParams \<times> u8 list) option" where
  "read_params bs =
     (case read_vec3 bs of None \<Rightarrow> None | Some (o3, bs1) \<Rightarrow>
      (case read32 bs1 of None \<Rightarrow> None | Some (tw, bs2) \<Rightarrow>
       (case read32 bs2 of None \<Rightarrow> None | Some (th, bs3) \<Rightarrow>
        (case read32 bs3 of None \<Rightarrow> None | Some (mt, bs4) \<Rightarrow>
         (case read32 bs4 of None \<Rightarrow> None | Some (mp, bs5) \<Rightarrow>
            Some (\<lparr>orig = o3, tileWidth = tw, tileHeight = th, maxTiles = mt, maxPolys = mp\<rparr>,
                  bs5))))))"

text \<open>The tile loop of \<^verbatim>\<open>load\<close>: the result is whether every tile was added, and the
  navmesh with the tiles added so far.\<close>

fun load_tiles ::
  "detour \<Rightarrow> (i32 \<times> i32) list \<Rightarrow> u8 list \<Rightarrow> dtNavMesh \<Rightarrow> (bool \<times> dtNavMesh) option" where
  "load_tiles dt [] bs nm = Some (True, nm)"
| "load_tiles dt (ij # cs) bs nm =
     (case read32 bs of
        None \<Rightarrow> None
      | Some (data_size, bs1) \<Rightarrow>
          if sint data_size < 0 \<or> length bs1 < nat (sint data_size) then None
          else (case addTile dt nm (take (nat (sint data_size)) bs1) data_size of
                  None \<Rightarrow> Some (False, nm)
                | Some nm1 \<Rightarrow> load_tiles dt cs (drop (nat (sint data_size)) bs1) nm1))"

definition load ::
  "fpu \<Rightarrow> detour \<Rightarrow> string \<Rightarrow> ('h, 'c, 's) scene \<Rightarrow> filesystem
     \<Rightarrow> (bool \<times> ('h, 'c, 's) scene) option" where
  "load fp dt path s fs =
     (let s0 = clear s
      in case fs path of
           None \<Rightarrow> Some (False, s0)
         | Some bytes \<Rightarrow>
             (case initNavmesh dt s0 of
                (False, s1) \<Rightarrow> Some (False, s1)
              | (True, s1) \<Rightarrow>
                  (case read_aabb bytes of None \<Rightarrow> None | Some (aabb, bs1) \<Rightarrow>
                   (case read32 bs1 of None \<Rightarrow> None | Some (ntx, bs2) \<Rightarrow>
                    (case read32 bs2 of None \<Rightarrow> None | Some (ntz, bs3) \<Rightarrow>
                     (case read_params bs3 of None \<Rightarrow> None | Some (p, bs4) \<Rightarrow>
                      (case m_navmesh s1 of None \<Rightarrow> None | Some nm \<Rightarrow>
                         let s2 = s1\<lparr>m_aabb := aabb, m_num_tiles_x := ntx, m_num_tiles_z := ntz\<rparr>
                         in (case dtNavMesh_init dt nm p of
                               None \<Rightarrow> Some (False, s2)
                             | Some nm1 \<Rightarrow>
                                 (case load_tiles dt (tile_coords ntx ntz) bs4 nm1 of
                                    None \<Rightarrow> None
                                  | Some (False, nm2) \<Rightarrow> Some (False, s2\<lparr>m_navmesh := Some nm2\<rparr>)
                                  | Some (True, nm2) \<Rightarrow>
                                      let s3 = s2\<lparr>m_navmesh := Some nm2\<rparr>
                                      in if m_crowd s3 = None then initCrowd fp dt s3
                                         else Some (True, s3))))))))))"

text \<open>The tiles of a list of coordinates, and whether the library takes a list of tiles
  one after the other, as the tile loop of \<^verbatim>\<open>load\<close> adds them.\<close>

fun tiles_accepted :: "detour \<Rightarrow> dtNavMesh \<Rightarrow> dtMeshTile list \<Rightarrow> bool" where
  "tiles_accepted dt nm [] = True"
| "tiles_accepted dt nm (t # ts) =
     (case addTile dt nm (data t) (dataSize t) of
        None \<Rightarrow> False
      | Some nm1 \<Rightarrow> tiles_accepted dt nm1 ts)"

subsection \<open>Walkable triangles, in the words of the specification\<close>




subsection \<open>What a step observes of an agent\<close>

text \<open>The corner count and the movement target of the crowd agent behind a handle, and
  the condition under which the loop body of \<^verbatim>\<open>update\<close> takes its arrival branch.\<close>

definition corner_count :: "dtCrowd \<Rightarrow> int \<Rightarrow> int option" where
  "corner_count c h = map_option ncorners (cr_agents c h)"

definition move_target :: "dtCrowd \<Rightarrow> int \<Rightarrow> (dtPolyRef \<times> vec3) option option" where
  "move_target c h = map_option target (cr_agents c h)"

definition arrives :: "dtCrowd \<Rightarrow> Agent \<Rightarrow> bool" where
  "arrives c a = (corner_count c (agent a) = Some 0 \<and> \<not> is_finished a)"

section \<open>Example instances\<close>

text \<open>A floating-point unit for the examples. Where an example depends on a float
  (a distance, a normal), it computes with zero, one, minus one, two and four, and on
  these the operations below agree with IEEE arithmetic up to the sign of a zero; the
  order on the bit patterns of non-negative floats is the order of the floats, and the
  cosine is given at 45 and at 60 degrees (0.70710677 and 0.5). On other operands an
  operation returns its first operand; the tile examples do not depend on such values.\<close>

definition ex_fpu :: fpu where
  "ex_fpu =
     \<lparr>fadd = (\<lambda>a b. if b = f_0 then a else if a = f_0 then b else a),
      fsub = (\<lambda>a b. if b = f_0 then a else if a = b then f_0
                     else if a = f_0 \<and> b = f_1 then 0xBF800000
                     else if a = f_0 \<and> b = 0xBF800000 then f_1 else a),
      fmul = (\<lambda>a b. if a = f_0 \<or> b = f_0 then f_0 else if a = f_1 then b
                     else if b = f_1 then a else if a = f_2 \<and> b = f_2 then f_4 else a),
      fdiv = (\<lambda>a b. if b = f_1 then a else if a = b then f_1 else a),
      fgt = (\<lambda>a b. b < a),
      fsqrt = (\<lambda>a. if a = f_4 then f_2 else a),
      fcos = (\<lambda>a. if a = 0x3F490FDB then 0x3F3504F3 else if a = 0x3F860A92 then 0x3F000000
                   else f_1),
      fatan2 = (\<lambda>a b. if a = f_0 then f_0 else a),
      i2f = (\<lambda>n. if n = 0 then f_0 else if n = 1 then f_1 else if n = 2 then f_2 else f_4),
      f2i = (\<lambda>a. if a = f_0 then 0 else if a = f_1 then 1 else if a = f_2 then 2 else 4)\<rparr>"

definition ex_engine :: engine where
  "ex_engine =
     \<lparr>getMatrix = (\<lambda>u e. []),
      aabb_transform = (\<lambda>b m. b),
      aabb_merge = (\<lambda>a b. b),
      aabb_overlaps = (\<lambda>a b. True),
      multiplyPosition = (\<lambda>m v. v),
      quat_toMatrix = (\<lambda>q. []),
      setTranslation = (\<lambda>m v. m),
      fastInverse = (\<lambda>m. m),
      quat_rotate = (\<lambda>q v. v),
      quat_axis_angle = (\<lambda>ax ang. Quat (vx ax) (vy ax) (vz ax) ang),
      degreesToRadians = (\<lambda>d. if d = f_45 then 0x3F490FDB else if d = f_60 then 0x3F860A92
                               else d),
      clamp = (\<lambda>v lo hi. if v < lo then lo else if hi < v then hi else v),
      log2 = (\<lambda>n. if n = 1 then 0 else if n = 2 then 1 else 2),
      nextPow2 = (\<lambda>n. if n = 3 then 4 else n),
      INDICES_16BIT = 1,
      open_for_writing = (\<lambda>path. True)\<rparr>"

text \<open>A library for the examples. A tile blob is a header of four ints: tile x, tile y,
  polygon count, vertex count. A tile is accepted when it has a header and its coordinate
  is free. The nearest-polygon query finds a polygon (reference 1) only for
  destinations with x = 0. A crowd step takes one corner off every agent's corridor. The
  crowd has two agent slots, and rejects a move request to the null polygon.\<close>

definition ex_blob :: "i32 \<Rightarrow> i32 \<Rightarrow> i32 \<Rightarrow> i32 \<Rightarrow> u8 list" where
  "ex_blob x z npolys nverts = le32 x @ le32 z @ le32 npolys @ le32 nverts"

definition ex_header_xy :: "u8 list \<Rightarrow> i32 \<times> i32" where
  "ex_header_xy d = (word_of_le32 (take 4 d), word_of_le32 (take 4 (drop 4 d)))"

definition ex_detour :: detour where
  "ex_detour =
     \<lparr>dtAllocNavMesh = True,
      dtAllocNavMeshQuery = True,
      navquery_init_ok = (\<lambda>nm n. True),
      navmesh_init_ok = (\<lambda>p. 0 <s maxTiles p),
      addTile_ok = (\<lambda>nm d n. 16 \<le> length d
                           \<and> nm_tiles nm (ex_header_xy d) = None),
      tile_header_xy = ex_header_xy,
      tile_header_polyCount = (\<lambda>d. word_of_le32 (take 4 (drop 8 d))),
      tile_header_vertCount = (\<lambda>d. word_of_le32 (take 4 (drop 12 d))),
      dtCreateNavMeshData = (\<lambda>cp. Some (ex_blob (cp_tileX cp) (cp_tileY cp) (cp_polyCount cp)
                                          (cp_vertCount cp), 16)),
      findNearestPoly = (\<lambda>nm p ext. if vx p = f_0 then 1 else 0),
      dtAllocCrowd = True,
      crowd_init_ok = (\<lambda>n r nm. True),
      crowd_update = (\<lambda>c t. c\<lparr>cr_agents := (\<lambda>h. case cr_agents c h of
                          None \<Rightarrow> None
                        | Some g \<Rightarrow> Some (g\<lparr>ncorners := max 0 (ncorners g - 1)\<rparr>))\<rparr>),
      addAgent_slot = (\<lambda>c pos p. if cr_agents c 0 = None then 0
                                        else if cr_agents c 1 = None then 1 else - 1),
      requestMoveTarget_ok = (\<lambda>c i ref pos. ref \<noteq> 0),
      DT_CROWD_ANTICIPATE_TURNS = 1,
      DT_CROWD_SEPARATION = 4,
      DT_CROWD_OBSTACLE_AVOIDANCE = 2,
      DT_CROWD_OPTIMIZE_TOPO = 16,
      DT_CROWD_OPTIMIZE_VIS = 8\<rparr>"

text \<open>A mesh-build library for the examples. Its heightfield is the list of the
  triangles rasterized into it, each with its area; every stage succeeds; the polygon
  mesh it builds is empty; the grid it computes is 257 by 1 cells.\<close>

type_synonym ex_hf = "(vec3 \<times> vec3 \<times> vec3 \<times> u8) list"

definition ex_polymesh :: rcPolyMesh where
  "ex_polymesh =
     \<lparr>pm_verts = [], pm_polys = [], pm_areas = [], pm_flags = [], pm_nverts = 0, pm_npolys = 0,
      pm_nvp = 6, pm_bmin = Vec3 f_0 f_0 f_0, pm_bmax = Vec3 f_0 f_0 f_0\<rparr>"

definition ex_detail_mesh :: rcPolyMeshDetail where
  "ex_detail_mesh = \<lparr>dm_meshes = [], dm_verts = [], dm_nverts = 0, dm_tris = [], dm_ntris = 0\<rparr>"

definition ex_recast :: "(ex_hf, unit, unit) recast" where
  "ex_recast =
     \<lparr>RC_WALKABLE_AREA = 63,
      rcAllocHeightfield = Some [],
      rcCreateHeightfield = (\<lambda>h w d bmin bmax cs ch. (True, h)),
      rcRasterizeTriangle = (\<lambda>a b c area h. h @ [(a, b, c, area)]),
      rcFilterLowHangingWalkableObstacles = (\<lambda>climb h. h),
      rcFilterLedgeSpans = (\<lambda>hgt climb h. h),
      rcFilterWalkableLowHeightSpans = (\<lambda>hgt h. h),
      rcAllocCompactHeightfield = Some (),
      rcBuildCompactHeightfield = (\<lambda>hgt climb h c. (True, c)),
      rcErodeWalkableArea = (\<lambda>r c. (True, c)),
      rcBuildDistanceField = (\<lambda>c. (True, c)),
      rcBuildRegions = (\<lambda>c b mn mg. (True, c)),
      rcAllocContourSet = Some (),
      rcBuildContours = (\<lambda>c e l cs. (True, cs)),
      rcAllocPolyMesh = Some ex_polymesh,
      rcBuildPolyMesh = (\<lambda>cs n pm. (True, pm)),
      rcAllocPolyMeshDetail = Some ex_detail_mesh,
      rcBuildPolyMeshDetail = (\<lambda>pm c d e dm. (True, dm)),
      rcCalcGridSize = (\<lambda>bmin bmax cs. (257, 1))\<rparr>"




definition ex_config :: rcConfig where
  "ex_config =
     \<lparr>cfg_width = 2, cfg_height = 2, cfg_tileSize = 256, cfg_borderSize = 1,
      cfg_cs = f_1, cfg_ch = f_1, cfg_bmin = Vec3 f_0 f_0 f_0, cfg_bmax = Vec3 f_0 f_0 f_0,
      cfg_walkableSlopeAngle = f_4, cfg_walkableHeight = 2, cfg_walkableClimb = 1,
      cfg_walkableRadius = 1, cfg_maxEdgeLen = 12, cfg_maxSimplificationError = f_1,
      cfg_minRegionArea = 64, cfg_mergeRegionArea = 400, cfg_maxVertsPerPoly = 6,
      cfg_detailSampleDist = f_2, cfg_detailSampleMaxError = f_1\<rparr>"

text \<open>A scene with one agent (entity 1, crowd handle 0) that stands at the origin and has
  just been sent along a corridor of two corners; the simulator runs on an empty navmesh
  of one tile.\<close>

definition ex_agent :: Agent where
  "ex_agent = \<lparr>entity = 1, radius = f_1, height = f_2, agent = 0, is_finished = True\<rparr>"

definition ex_params :: dtCrowdAgentParams where
  "ex_params =
     \<lparr>ap_radius = f_1, ap_height = f_2, ap_maxAcceleration = f_10, ap_maxSpeed = f_10,
      ap_collisionQueryRange = f_12, ap_pathOptimizationRange = f_30, ap_updateFlags = 31\<rparr>"

definition ex_crowd_agent :: dtCrowdAgent where
  "ex_crowd_agent =
     \<lparr>npos = Vec3 f_0 f_0 f_0, vel = Vec3 f_0 f_0 f_0, ncorners = 2, params = ex_params,
      target = Some (1, Vec3 f_0 f_0 f_4)\<rparr>"

definition ex_crowd :: dtCrowd where
  "ex_crowd = \<lparr>cr_maxAgents = 1000, cr_maxAgentRadius = f_4, cr_agents = [0 \<mapsto> ex_crowd_agent]\<rparr>"

definition ex_navmesh_params :: dtNavMeshParams where
  "ex_navmesh_params =
     \<lparr>orig = Vec3 f_0 f_0 f_0, tileWidth = f_4, tileHeight = f_4, maxTiles = 2, maxPolys = 2\<rparr>"

definition ex_universe :: universe where
  "ex_universe =
     \<lparr>positions = (\<lambda>e. Vec3 f_0 f_0 f_0), rotations = (\<lambda>e. Quat f_0 f_0 f_0 f_1),
      render = None\<rparr>"

definition ex_scene :: "(ex_hf, unit, unit) scene" where
  "ex_scene =
     \<lparr>m_universe = ex_universe,
      m_polymesh = None,
      m_navmesh = Some \<lparr>nm_params = Some ex_navmesh_params, nm_tiles = Map.empty\<rparr>,
      m_navquery = Some (),
      m_detail_mesh = None,
      m_agents = [ex_agent],
      m_debug_compact_heightfield = None,
      m_debug_heightfield = None,
      m_debug_contours = None,
      m_debug_tile_origin = Vec3 f_0 f_0 f_0,
      m_aabb = \<lparr>aabb_min = Vec3 f_0 f_0 f_0, aabb_max = Vec3 f_4 f_0 f_4\<rparr>,
      m_config = ex_config,
      m_num_tiles_x = 2,
      m_num_tiles_z = 1,
      m_script_scene = None,
      m_crowd = Some ex_crowd\<rparr>"

text \<open>The same scene after other code has moved entity 1 two units along x.\<close>

definition ex_scene_moved :: "(ex_hf, unit, unit) scene" where
  "ex_scene_moved = ex_scene\<lparr>m_universe := setPosition ex_universe 1 (Vec3 f_2 f_0 f_0)\<rparr>"

text \<open>A built store for the grid of two tiles: tile (0,0) with one polygon and four
  vertices, tile (1,0) without polygons.\<close>

definition ex_tile0 :: dtMeshTile where
  "ex_tile0 = \<lparr>dataSize = 16, data = ex_blob 0 0 1 4\<rparr>"

definition ex_tile1 :: dtMeshTile where
  "ex_tile1 = \<lparr>dataSize = 16, data = ex_blob 1 0 0 0\<rparr>"

definition ex_built_navmesh :: dtNavMesh where
  "ex_built_navmesh =
     \<lparr>nm_params = Some ex_navmesh_params, nm_tiles = [(0, 0) \<mapsto> ex_tile0, (1, 0) \<mapsto> ex_tile1]\<rparr>"

definition ex_built_scene :: "(ex_hf, unit, unit) scene" where
  "ex_built_scene = ex_scene\<lparr>m_navmesh := Some ex_built_navmesh\<rparr>"

text \<open>A file whose parameters the example library rejects (no tiles allowed), and a
  file of an empty grid with parameters it accepts.\<close>

definition ex_rejected_params :: dtNavMeshParams where
  "ex_rejected_params = ex_navmesh_params\<lparr>maxTiles := 0\<rparr>"

definition ex_rejected_file :: "u8 list" where
  "ex_rejected_file =
     aabb_bytes (m_aabb ex_scene) @ le32 0 @ le32 0 @ params_bytes ex_rejected_params"

definition ex_empty_file :: "u8 list" where
  "ex_empty_file =
     aabb_bytes (m_aabb ex_scene) @ le32 0 @ le32 0 @ params_bytes ex_navmesh_params"




section \<open>Properties\<close>

lemma corner_count_reset: "corner_count (resetMoveTarget c i) h = corner_count c h"
  by (simp add: corner_count_def resetMoveTarget_def split: option.splits)

lemma move_target_reset_same: "cr_agents c i = Some g \<Longrightarrow> move_target (resetMoveTarget c i) i = Some None"
  by (simp add: move_target_def resetMoveTarget_def)

lemma move_target_reset_keeps: "move_target c h = Some None \<Longrightarrow> move_target (resetMoveTarget c i) h = Some None"
  by (auto simp add: move_target_def resetMoveTarget_def split: option.splits)


lemma update_agent_cases:
  assumes "update_agent fp en sc a c u = Some (a1, c1, u1, ev)"
  obtains g where "cr_agents c (agent a) = Some g"
    and "(ncorners g = 0 \<and> \<not> is_finished a \<and> a1 = a\<lparr>is_finished := True\<rparr>
            \<and> c1 = resetMoveTarget c (agent a)
            \<and> ev = [PathFinished (entity a) (onPathFinished sc a)])
         \<or> (ncorners g = 0 \<and> is_finished a \<and> a1 = a \<and> c1 = c \<and> ev = [])
         \<or> (ncorners g \<noteq> 0 \<and> a1 = a\<lparr>is_finished := False\<rparr> \<and> c1 = c \<and> ev = [])"
  using assms
  by (auto simp add: update_agent_def getAgent_def Let_def split: option.splits if_splits)

lemma update_agent_spec:
  assumes "update_agent fp en sc a c u = Some (a1, c1, u1, ev)"
  shows "entity a1 = entity a" and "agent a1 = agent a"
    and "corner_count c1 h = corner_count c h"
    and "is_finished a1 = (corner_count c (agent a) = Some 0)"
    and "map event_entity ev = (if arrives c a then [entity a] else [])"
    and "arrives c a \<Longrightarrow> move_target c1 (agent a) = Some None"
    and "move_target c h = Some None \<Longrightarrow> move_target c1 h = Some None"
proof -
  from assms obtain g where g: "cr_agents c (agent a) = Some g"
    and cs: "(ncorners g = 0 \<and> \<not> is_finished a \<and> a1 = a\<lparr>is_finished := True\<rparr>
            \<and> c1 = resetMoveTarget c (agent a)
            \<and> ev = [PathFinished (entity a) (onPathFinished sc a)])
         \<or> (ncorners g = 0 \<and> is_finished a \<and> a1 = a \<and> c1 = c \<and> ev = [])
         \<or> (ncorners g \<noteq> 0 \<and> a1 = a\<lparr>is_finished := False\<rparr> \<and> c1 = c \<and> ev = [])"
    by (rule update_agent_cases)
  have ccg: "corner_count c (agent a) = Some (ncorners g)"
    by (simp add: corner_count_def g)
  show "entity a1 = entity a" and "agent a1 = agent a"
    using cs by auto
  show "corner_count c1 h = corner_count c h"
    using cs by (auto simp add: corner_count_reset)
  show "is_finished a1 = (corner_count c (agent a) = Some 0)"
    using cs by (auto simp add: ccg)
  show "map event_entity ev = (if arrives c a then [entity a] else [])"
    using cs by (auto simp add: arrives_def ccg)
  show "arrives c a \<Longrightarrow> move_target c1 (agent a) = Some None"
    using cs by (auto simp add: arrives_def ccg move_target_reset_same [OF g])
  show "move_target c h = Some None \<Longrightarrow> move_target c1 h = Some None"
    using cs by (auto simp add: move_target_reset_keeps)
qed

lemma update_agents_spec:
  assumes "update_agents fp en sc as c u = Some (as1, c1, u1, evs)"
  shows "map entity as1 = map entity as \<and> map agent as1 = map agent as
       \<and> (\<forall>h. corner_count c1 h = corner_count c h)
       \<and> map is_finished as1 = map (\<lambda>a. corner_count c (agent a) = Some 0) as
       \<and> map event_entity evs = map entity (filter (arrives c) as)
       \<and> (\<forall>a\<in>set as. arrives c a \<longrightarrow> move_target c1 (agent a) = Some None)
       \<and> (\<forall>h. move_target c h = Some None \<longrightarrow> move_target c1 h = Some None)"
  using assms
proof (induction as arbitrary: c u as1 c1 u1 evs)
  case Nil
  then show ?case by simp
next
  case (Cons a as)
  from Cons.prems obtain a1 c' u' ev as' evs' where
    one: "update_agent fp en sc a c u = Some (a1, c', u', ev)" and
    rest: "update_agents fp en sc as c' u' = Some (as', c1, u1, evs')" and
    eqs: "as1 = a1 # as'" "evs = ev @ evs'"
    by (auto split: option.splits)
  note A = update_agent_spec [OF one]
  note IH = Cons.IH [OF rest]
  have arr: "arrives c' = arrives c"
    by (rule ext) (simp add: arrives_def A(3))
  show ?case
    using A(1,2,4,5,6) IH A(3) A(7) arr
    by (auto simp add: eqs)
qed

lemma agents_find_nth:
  "agents_find as e = Some a \<Longrightarrow>
     entity a = e \<and> a \<in> set as \<and>
     (\<exists>i<length as. as ! i = a \<and>
        (\<forall>as1. map entity as1 = map entity as \<longrightarrow> agents_find as1 e = Some (as1 ! i)))"
proof (induction as)
  case Nil
  then show ?case by simp
next
  case (Cons b bs)
  show ?case
  proof (cases "entity b = e")
    case True
    with Cons.prems have "a = b" by simp
    moreover have "\<forall>as1. map entity as1 = map entity (b # bs) \<longrightarrow> agents_find as1 e = Some (as1 ! 0)"
      using True by (auto simp add: map_eq_Cons_conv)
    ultimately show ?thesis using True by auto
  next
    case False
    with Cons.prems have "agents_find bs e = Some a" by simp
    from Cons.IH [OF this] obtain i where i: "entity a = e" "a \<in> set bs" "i < length bs" "bs ! i = a"
      "\<forall>as1. map entity as1 = map entity bs \<longrightarrow> agents_find as1 e = Some (as1 ! i)"
      by blast
    have "\<forall>as1. map entity as1 = map entity (b # bs) \<longrightarrow> agents_find as1 e = Some (as1 ! Suc i)"
      using False i(5) by (auto simp add: map_eq_Cons_conv)
    then show ?thesis using i by auto
  qed
qed

lemma filter_absent_entity:
  "e \<notin> entity ` set bs \<Longrightarrow> length (filter (\<lambda>b. entity b = e) (filter Q bs)) = 0"
  by (induction bs) auto

lemma count_distinct_filter:
  "distinct (map entity as) \<Longrightarrow> a \<in> set as \<Longrightarrow>
     length (filter (\<lambda>b. entity b = entity a) (filter P as)) = (if P a then 1 else 0)"
proof (induction as)
  case Nil
  then show ?case by simp
next
  case (Cons b bs)
  show ?case
  proof (cases "a = b")
    case True
    have "entity b \<notin> entity ` set bs" using Cons.prems by simp
    from filter_absent_entity [OF this, of P] show ?thesis
      using True by simp
  next
    case False
    then have abs: "a \<in> set bs" using Cons.prems by simp
    then have "entity b \<noteq> entity a" using Cons.prems by auto
    moreover have "length (filter (\<lambda>b. entity b = entity a) (filter P bs)) = (if P a then 1 else 0)"
      using Cons abs by simp
    ultimately show ?thesis by (cases "P a") auto
  qed
qed

lemma length_filter_map_entity:
  "length (filter (\<lambda>x. x = e) (map entity as)) = length (filter (\<lambda>b. entity b = e) as)"
  by (induction as) auto

lemma length_filter_events:
  "length (filter (\<lambda>v. event_entity v = e) evs) = length (filter (\<lambda>x. x = e) (map event_entity evs))"
  by (induction evs) auto

lemma update_step:
  assumes up: "update fp en dt t p s = Some (s1, evs)"
    and cr: "m_crowd s = Some c"
    and ag: "agents_find (m_agents s) e = Some a"
    and di: "distinct (map entity (m_agents s))"
  shows "\<exists>a1 c1. m_crowd s1 = Some c1 \<and> agents_find (m_agents s1) e = Some a1
      \<and> agent a1 = agent a \<and> distinct (map entity (m_agents s1))
      \<and> is_finished a1 = (corner_count c1 (agent a) = Some 0)
      \<and> length (filter (\<lambda>v. event_entity v = e) evs)
          = (if corner_count c1 (agent a) = Some 0 \<and> \<not> is_finished a then 1 else 0)
      \<and> (corner_count c1 (agent a) = Some 0 \<and> \<not> is_finished a \<longrightarrow> move_target c1 (agent a) = Some None)"
proof -
  let ?c0 = "crowd_update dt c t"
  from up cr obtain as1 c1 u1 where
    run: "update_agents fp en (m_script_scene s) (m_agents s) ?c0 (m_universe s) = Some (as1, c1, u1, evs)"
    and s1: "s1 = s\<lparr>m_universe := u1, m_agents := as1, m_crowd := Some c1\<rparr>"
    by (auto simp add: update_def split: option.splits)
  note S = update_agents_spec [OF run]
  from agents_find_nth [OF ag] obtain i where i: "entity a = e" "a \<in> set (m_agents s)"
    "i < length (m_agents s)" "m_agents s ! i = a"
    "\<forall>as1. map entity as1 = map entity (m_agents s) \<longrightarrow> agents_find as1 e = Some (as1 ! i)"
    by blast
  have len: "length as1 = length (m_agents s)"
    using S by (metis length_map)
  have f1: "agents_find as1 e = Some (as1 ! i)" using i(5) S by blast
  have ag1: "agent (as1 ! i) = agent a"
    using S i(3,4) len by (metis nth_map)
  have fin1: "is_finished (as1 ! i) = (corner_count ?c0 (agent a) = Some 0)"
  proof -
    have "map is_finished as1 ! i = map (\<lambda>a. corner_count ?c0 (agent a) = Some 0) (m_agents s) ! i"
      using S by simp
    then show ?thesis using i(3,4) len by simp
  qed
  have cceq: "corner_count c1 (agent a) = corner_count ?c0 (agent a)" using S by blast
  have arr: "arrives ?c0 a = (corner_count c1 (agent a) = Some 0 \<and> \<not> is_finished a)"
    by (simp add: arrives_def cceq)
  have cnt: "length (filter (\<lambda>v. event_entity v = e) evs) = (if arrives ?c0 a then 1 else 0)"
    using S count_distinct_filter [OF di i(2), of "arrives ?c0"] i(1)
    by (simp only: length_filter_events length_filter_map_entity)
  have tgt: "arrives ?c0 a \<longrightarrow> move_target c1 (agent a) = Some None"
    using S i(2) by blast
  have d1: "distinct (map entity as1)" using S di by simp
  show ?thesis
    using f1 ag1 fin1 cceq arr cnt tgt d1 by (simp add: s1)
qed


lemmas ex_defs = ex_scene_def ex_crowd_def ex_crowd_agent_def ex_agent_def ex_params_def
  ex_universe_def ex_detour_def ex_engine_def ex_fpu_def ex_navmesh_params_def
lemmas upd_defs = update_def update_agent_def getAgent_def setPosition_def setRotation_def
  vlength_def squaredLength_def vscale_def resetMoveTarget_def onPathFinished_def Let_def


text \<open>
  C10. For every scene and every time delta, \<^verbatim>\<open>update\<close> called with \<^verbatim>\<open>paused = true\<close>
  returns the same scene and the same notifications (or is undefined in the same way) as
  \<^verbatim>\<open>update\<close> called with \<^verbatim>\<open>paused = false\<close>: the step runs whenever the crowd exists.
\<close>

theorem update_paused_irrelevant:
  "update fp en dt time_delta True s = update fp en dt time_delta False s"
  by (simp add: update_def)

lemma navigate_agents: "navigate dt s e dest speed = Some (ok, s1) \<Longrightarrow> m_agents s1 = m_agents s"
  by (auto simp add: navigate_def Let_def split: option.splits if_splits)

lemma navigate_crowd: "navigate dt s e dest speed = Some (ok, s1) \<Longrightarrow> (m_crowd s1 = None) = (m_crowd s = None)"
  by (auto simp add: navigate_def Let_def split: option.splits if_splits)

text \<open>
  C9, as amended. A \<^verbatim>\<open>navigate\<close> call leaves the agents and their arrived flags as they
  were. The flag is written by the simulation step only: the step after the call sets the
  flag of a live agent to "the corner count is zero", and it raises the path-finished
  notification for the entity exactly when the corner count is zero and the flag was
  clear before the call.
\<close>

theorem navigate_keeps_arrived_flag:
  assumes nav: "navigate dt s e dest speed = Some (ok, s1)"
    and st: "update fp en dt t p s1 = Some (s2, evs)"
    and ag: "agents_find (m_agents s) e = Some a"
    and di: "distinct (map entity (m_agents s))"
    and o2: "m_crowd s2 = Some c2" "getAgent c2 (agent a) = Some g"
  shows "m_agents s1 = m_agents s
       \<and> (\<exists>a2. agents_find (m_agents s2) e = Some a2 \<and> is_finished a2 = (ncorners g = 0))
       \<and> length (filter (\<lambda>v. event_entity v = e) evs)
           = (if ncorners g = 0 \<and> \<not> is_finished a then 1 else 0)"
proof -
  have eq: "m_agents s1 = m_agents s" by (rule navigate_agents [OF nav])
  from st o2(1) obtain c1 where c1: "m_crowd s1 = Some c1"
    by (auto simp add: update_def split: option.splits)
  have ag1: "agents_find (m_agents s1) e = Some a" using ag eq by simp
  have di1: "distinct (map entity (m_agents s1))" using di eq by simp
  from update_step [OF st c1 ag1 di1] o2
  show ?thesis by (auto simp add: corner_count_def getAgent_def eq)
qed

text \<open>
  C3, as amended. \<^verbatim>\<open>navigate\<close> returns failure and changes nothing when the navmesh
  query or the crowd is missing, when the entity is invalid, or when the entity has no
  agent. Otherwise, for an agent that is live in the crowd, it sets the agent's maximum
  speed to the requested speed whatever the nearest-polygon query found, asks the crowd
  to move the agent to the polygon the query returned, and returns whether the crowd
  accepted the request; the movement target is the new one when the request was accepted
  and the old one when it was not, and no other crowd agent changes.
\<close>

theorem navigate_outcome:
  fixes s :: "('h, 'c, 's) scene"
  shows "(m_navquery s = None \<or> m_crowd s = None \<or> e = INVALID_ENTITY
            \<or> agents_find (m_agents s) e = None
          \<longrightarrow> navigate dt s e dest speed = Some (False, s))
       \<and> (m_navquery s \<noteq> None \<and> m_crowd s = Some c \<and> e \<noteq> INVALID_ENTITY
            \<and> agents_find (m_agents s) e = Some a \<and> m_navmesh s = Some nm
            \<and> getAgent c (agent a) = Some g
          \<longrightarrow> (\<exists>c2. navigate dt s e dest speed
                    = Some (requestMoveTarget_ok dt
                              (updateAgentParameters c (agent a) ((params g)\<lparr>ap_maxSpeed := speed\<rparr>))
                              (agent a) (findNearestPoly dt nm dest (Vec3 f_1 f_2 f_1)) dest,
                            s\<lparr>m_crowd := Some c2\<rparr>)
                 \<and> getAgent c2 (agent a)
                    = Some (g\<lparr>params := (params g)\<lparr>ap_maxSpeed := speed\<rparr>,
                              target :=
                                (if requestMoveTarget_ok dt
                                      (updateAgentParameters c (agent a) ((params g)\<lparr>ap_maxSpeed := speed\<rparr>))
                                      (agent a) (findNearestPoly dt nm dest (Vec3 f_1 f_2 f_1)) dest
                                 then Some (findNearestPoly dt nm dest (Vec3 f_1 f_2 f_1), dest)
                                 else target g)\<rparr>)
                 \<and> (\<forall>h. h \<noteq> agent a \<longrightarrow> getAgent c2 h = getAgent c h)))"
  by (auto simp add: navigate_def Let_def getAgent_def updateAgentParameters_def
        requestMoveTarget_def split: option.splits)

text \<open>
  C7. When the transform of an entity with an agent has been changed and the agent is
  live in the crowd: if the squared distance between the entity's position and the crowd
  agent's position is greater than the tolerance \<^verbatim>\<open>0.1f\<close>, the handler removes the agent
  from the crowd and adds it again at the entity's position, so that the agent's handle is
  the one the crowd returns and, when that is a valid handle, the crowd agent behind it
  stands at the new position with zero velocity, no corners and no target; otherwise the
  handler changes nothing.
\<close>

theorem entity_moved_resync:
  fixes s :: "('h, 'c, 's) scene"
  assumes ag: "agents_find (m_agents s) e = Some a"
    and cr: "m_crowd s = Some c"
    and live: "getAgent c (agent a) = Some g"
  shows "(fgt fp (squaredLength fp (vsub fp (getPosition (m_universe s) e) (npos g))) f_0_1
          \<longrightarrow> (\<exists>a1 c1. onEntityMoved fp dt s e
                   = Some (s\<lparr>m_agents := agents_modify e (\<lambda>_. a1) (m_agents s), m_crowd := Some c1\<rparr>)
                \<and> (a1, c1) = addCrowdAgent fp dt (m_universe s) (removeAgent c (agent a)) a
                \<and> getAgent (removeAgent c (agent a)) (agent a) = None
                \<and> a1 = a\<lparr>agent := agent a1\<rparr>
                \<and> (0 \<le> agent a1 \<longrightarrow>
                     (\<exists>g1. getAgent c1 (agent a1) = Some g1
                        \<and> npos g1 = getPosition (m_universe s) e
                        \<and> vel g1 = Vec3 f_0 f_0 f_0 \<and> ncorners g1 = 0 \<and> target g1 = None))))
       \<and> (\<not> fgt fp (squaredLength fp (vsub fp (getPosition (m_universe s) e) (npos g))) f_0_1
          \<longrightarrow> onEntityMoved fp dt s e = Some s)"
proof -
  have ea: "entity a = e" using agents_find_nth [OF ag] by simp
  show ?thesis
    using ag cr live ea
    by (auto simp add: onEntityMoved_def Let_def addCrowdAgent_def addAgent_def getAgent_def
          removeAgent_def)
qed


lemmas f_defs = f_0_def f_1_def f_2_def f_4_def f_0_1_def f_10_def f_12_def f_30_def
lemmas nav_defs = navigate_def getAgent_def updateAgentParameters_def requestMoveTarget_def
  INVALID_ENTITY_def Let_def

text \<open>
  C9 as stated fails: the agent of the example scene has its arrived flag set; a
  \<^verbatim>\<open>navigate\<close> call for it succeeds and the flag is still set.
\<close>

theorem navigate_arrived_flag_counterexample:
  "navigate ex_detour ex_scene 1 (Vec3 f_0 f_0 f_4) f_2
     = Some (True, ex_scene\<lparr>m_crowd := Some (ex_crowd\<lparr>cr_agents :=
         [0 \<mapsto> ex_crowd_agent\<lparr>params := ex_params\<lparr>ap_maxSpeed := f_2\<rparr>,
                                target := Some (1, Vec3 f_0 f_0 f_4)\<rparr>]\<rparr>)\<rparr>)
   \<and> m_agents ex_scene = [ex_agent] \<and> is_finished ex_agent
   \<and> map is_finished (m_agents (ex_scene\<lparr>m_crowd := Some (ex_crowd\<lparr>cr_agents :=
         [0 \<mapsto> ex_crowd_agent\<lparr>params := ex_params\<lparr>ap_maxSpeed := f_2\<rparr>,
                                target := Some (1, Vec3 f_0 f_0 f_4)\<rparr>]\<rparr>)\<rparr>)) = [True]"
  by (simp add: nav_defs ex_defs f_defs)

text \<open>
  C3 as stated fails: for a destination where the nearest-polygon query finds nothing,
  \<^verbatim>\<open>navigate\<close> returns failure, yet the agent's maximum speed has changed from 10 to the
  requested 2.
\<close>

theorem navigate_failure_mutates_counterexample:
  "navigate ex_detour ex_scene 1 (Vec3 f_4 f_0 f_0) f_2
     = Some (False, ex_scene\<lparr>m_crowd := Some (ex_crowd\<lparr>cr_agents :=
         [0 \<mapsto> ex_crowd_agent\<lparr>params := ex_params\<lparr>ap_maxSpeed := f_2\<rparr>\<rparr>]\<rparr>)\<rparr>)
   \<and> findNearestPoly ex_detour \<lparr>nm_params = Some ex_navmesh_params, nm_tiles = Map.empty\<rparr>
        (Vec3 f_4 f_0 f_0) (Vec3 f_1 f_2 f_1) = 0
   \<and> getAgent ex_crowd 0 = Some ex_crowd_agent
   \<and> ap_maxSpeed (params ex_crowd_agent) = f_10
   \<and> f_10 \<noteq> f_2"
  by (simp add: nav_defs ex_defs f_defs)

theorem navigate_outcome_witness:
  "m_navquery ex_scene \<noteq> None \<and> m_crowd ex_scene = Some ex_crowd \<and> (1::int) \<noteq> INVALID_ENTITY
   \<and> agents_find (m_agents ex_scene) 1 = Some ex_agent
   \<and> m_navmesh ex_scene = Some \<lparr>nm_params = Some ex_navmesh_params, nm_tiles = Map.empty\<rparr>
   \<and> getAgent ex_crowd (agent ex_agent) = Some ex_crowd_agent
   \<and> (\<exists>c2. navigate ex_detour ex_scene 1 (Vec3 f_0 f_0 f_4) f_2
             = Some (True, ex_scene\<lparr>m_crowd := Some c2\<rparr>)
          \<and> getAgent c2 (agent ex_agent)
             = Some (ex_crowd_agent\<lparr>params := (params ex_crowd_agent)\<lparr>ap_maxSpeed := f_2\<rparr>,
                                   target := Some (1, Vec3 f_0 f_0 f_4)\<rparr>))
   \<and> navigate ex_detour ex_scene INVALID_ENTITY (Vec3 f_0 f_0 f_4) f_2 = Some (False, ex_scene)"
proof -
  let ?nm = "\<lparr>nm_params = Some ex_navmesh_params, nm_tiles = Map.empty\<rparr>"
  let ?dest = "Vec3 f_0 f_0 f_4"
  have h: "m_navquery ex_scene \<noteq> None" "m_crowd ex_scene = Some ex_crowd"
    "(1::int) \<noteq> INVALID_ENTITY" "agents_find (m_agents ex_scene) 1 = Some ex_agent"
    "m_navmesh ex_scene = Some ?nm" "getAgent ex_crowd (agent ex_agent) = Some ex_crowd_agent"
    by (simp_all add: ex_defs getAgent_def INVALID_ENTITY_def)
  have found: "findNearestPoly ex_detour ?nm ?dest (Vec3 f_1 f_2 f_1) = 1"
    by (simp add: ex_detour_def f_defs)
  have acc: "requestMoveTarget_ok ex_detour
       (updateAgentParameters ex_crowd (agent ex_agent) ((params ex_crowd_agent)\<lparr>ap_maxSpeed := f_2\<rparr>))
       (agent ex_agent) 1 ?dest"
    by (simp add: ex_detour_def)
  have inv: "navigate ex_detour ex_scene INVALID_ENTITY ?dest f_2 = Some (False, ex_scene)"
    using navigate_outcome [where s = ex_scene and e = INVALID_ENTITY and dt = ex_detour
      and dest = ?dest and speed = f_2]
    by simp
  from navigate_outcome [where s = ex_scene and e = 1 and c = ex_crowd and a = ex_agent
      and nm = ?nm and g = ex_crowd_agent and dt = ex_detour and dest = ?dest and speed = f_2]
    h found acc
  have "\<exists>c2. navigate ex_detour ex_scene 1 ?dest f_2 = Some (True, ex_scene\<lparr>m_crowd := Some c2\<rparr>)
          \<and> getAgent c2 (agent ex_agent)
             = Some (ex_crowd_agent\<lparr>params := (params ex_crowd_agent)\<lparr>ap_maxSpeed := f_2\<rparr>,
                                   target := Some (1, ?dest)\<rparr>)"
    by (simp only: if_True simp_thms) blast
  with h inv show ?thesis by blast
qed

theorem entity_moved_resync_witness:
  "agents_find (m_agents ex_scene_moved) 1 = Some ex_agent
   \<and> m_crowd ex_scene_moved = Some ex_crowd
   \<and> getAgent ex_crowd (agent ex_agent) = Some ex_crowd_agent
   \<and> fgt ex_fpu (squaredLength ex_fpu
        (vsub ex_fpu (getPosition (m_universe ex_scene_moved) 1) (npos ex_crowd_agent))) f_0_1
   \<and> onEntityMoved ex_fpu ex_detour ex_scene_moved 1
       = Some (ex_scene_moved\<lparr>m_agents := [ex_agent],
            m_crowd := Some (ex_crowd\<lparr>cr_agents :=
              [0 \<mapsto> \<lparr>npos = Vec3 f_2 f_0 f_0, vel = Vec3 f_0 f_0 f_0, ncorners = 0,
                       params = ex_params, target = None\<rparr>]\<rparr>)\<rparr>)
   \<and> \<not> fgt ex_fpu (squaredLength ex_fpu
        (vsub ex_fpu (getPosition (m_universe ex_scene) 1) (npos ex_crowd_agent))) f_0_1
   \<and> onEntityMoved ex_fpu ex_detour ex_scene 1 = Some ex_scene"
proof -
  have ag: "agents_find (m_agents ex_scene_moved) 1 = Some ex_agent"
    by (simp add: ex_scene_moved_def ex_defs)
  have cr: "m_crowd ex_scene_moved = Some ex_crowd"
    by (simp add: ex_scene_moved_def ex_defs)
  have live: "getAgent ex_crowd (agent ex_agent) = Some ex_crowd_agent"
    by (simp add: getAgent_def ex_defs)
  have ag0: "agents_find (m_agents ex_scene) 1 = Some ex_agent"
    by (simp add: ex_defs)
  have cr0: "m_crowd ex_scene = Some ex_crowd"
    by (simp add: ex_defs)
  have far: "fgt ex_fpu (squaredLength ex_fpu
        (vsub ex_fpu (getPosition (m_universe ex_scene_moved) 1) (npos ex_crowd_agent))) f_0_1"
    by (simp add: ex_scene_moved_def ex_defs f_defs squaredLength_def vsub_def getPosition_def
          setPosition_def)
  have near: "\<not> fgt ex_fpu (squaredLength ex_fpu
        (vsub ex_fpu (getPosition (m_universe ex_scene) 1) (npos ex_crowd_agent))) f_0_1"
    by (simp add: ex_defs f_defs squaredLength_def vsub_def getPosition_def)
  have moved: "onEntityMoved ex_fpu ex_detour ex_scene_moved 1
       = Some (ex_scene_moved\<lparr>m_agents := [ex_agent],
            m_crowd := Some (ex_crowd\<lparr>cr_agents :=
              [0 \<mapsto> \<lparr>npos = Vec3 f_2 f_0 f_0, vel = Vec3 f_0 f_0 f_0, ncorners = 0,
                       params = ex_params, target = None\<rparr>]\<rparr>)\<rparr>)"
    using entity_moved_resync [OF ag cr live, of ex_fpu ex_detour] far
    by (auto simp add: ex_scene_moved_def ex_defs f_defs addCrowdAgent_def addAgent_def
          removeAgent_def getPosition_def setPosition_def Let_def)
  have still: "onEntityMoved ex_fpu ex_detour ex_scene 1 = Some ex_scene"
    using entity_moved_resync [OF ag0 cr0 live, of ex_fpu ex_detour] near by blast
  show ?thesis
    using ag cr live far near moved still by blast
qed

theorem navigate_keeps_arrived_flag_witness:
  "\<exists>s1 s2 evs c2 g.
     navigate ex_detour ex_scene 1 (Vec3 f_0 f_0 f_4) f_2 = Some (True, s1)
   \<and> update ex_fpu ex_engine ex_detour f_1 False s1 = Some (s2, evs)
   \<and> agents_find (m_agents ex_scene) 1 = Some ex_agent
   \<and> distinct (map entity (m_agents ex_scene))
   \<and> m_crowd s2 = Some c2 \<and> getAgent c2 (agent ex_agent) = Some g
   \<and> m_agents s1 = m_agents ex_scene
   \<and> (\<exists>a2. agents_find (m_agents s2) 1 = Some a2 \<and> is_finished a2 = (ncorners g = 0))
   \<and> length (filter (\<lambda>v. event_entity v = 1) evs)
        = (if ncorners g = 0 \<and> \<not> is_finished ex_agent then 1 else 0)"
proof -
  define s1 where "s1 = snd (the (navigate ex_detour ex_scene 1 (Vec3 f_0 f_0 f_4) f_2))"
  define r2 where "r2 = the (update ex_fpu ex_engine ex_detour f_1 False s1)"
  define c2 where "c2 = the (m_crowd (fst r2))"
  have nav: "navigate ex_detour ex_scene 1 (Vec3 f_0 f_0 f_4) f_2 = Some (True, s1)"
    unfolding s1_def by (simp add: nav_defs ex_defs f_defs)
  have st: "update ex_fpu ex_engine ex_detour f_1 False s1 = Some (fst r2, snd r2)"
    unfolding r2_def s1_def by (simp add: nav_defs upd_defs ex_defs f_defs)
  have ag: "agents_find (m_agents ex_scene) 1 = Some ex_agent"
    by (simp add: ex_defs)
  have di: "distinct (map entity (m_agents ex_scene))"
    by (simp add: ex_defs)
  have o2: "m_crowd (fst r2) = Some c2"
    unfolding c2_def r2_def s1_def by (simp add: nav_defs upd_defs ex_defs f_defs)
  have g2: "getAgent c2 (agent ex_agent) = Some (the (getAgent c2 (agent ex_agent)))"
    unfolding c2_def r2_def s1_def by (simp add: nav_defs upd_defs ex_defs f_defs)
  from navigate_keeps_arrived_flag [OF nav st ag di o2 g2]
  show ?thesis
    using nav st ag di o2 g2 by blast
qed

lemma word_of_le32_le32: "word_of_le32 (le32 w) = w"
  unfolding le32_def
  apply simp
  apply (rule bit_word_eqI)
  subgoal for n
    by (cases "n < 8"; cases "n < 16"; cases "n < 24"; simp add: bit_simps; arith)
  done

lemma length_le32: "length (le32 w) = 4"
  by (simp add: le32_def)

lemma length_ex_blob: "length (ex_blob x z np nv) = 16"
  by (simp add: ex_blob_def length_le32)

lemma ex_header_blob: "ex_header_xy (ex_blob x z np nv) = (x, z)"
  by (simp add: ex_header_xy_def ex_blob_def length_le32 word_of_le32_le32)

lemma read32_le32: "read32 (le32 w @ rest) = Some (w, rest)"
  by (simp add: read32_def length_le32 word_of_le32_le32)

lemma read_vec3_bytes: "read_vec3 (vec3_bytes v @ rest) = Some (v, rest)"
  by (simp add: read_vec3_def vec3_bytes_def read32_le32)

lemma read_aabb_bytes: "read_aabb (aabb_bytes b @ rest) = Some (b, rest)"
  by (simp add: read_aabb_def aabb_bytes_def read_vec3_bytes)

lemma read_params_bytes: "read_params (params_bytes p @ rest) = Some (p, rest)"
  by (simp add: read_params_def params_bytes_def read_vec3_bytes read32_le32)

lemma load_tiles_save_tiles:
  assumes "save_tiles nm cs = Some bytes"
    and "\<forall>c\<in>set cs. \<forall>t. nm_tiles nm c = Some t \<longrightarrow>
           length (data t) = nat (sint (dataSize t)) \<and> tile_header_xy dt (data t) = c"
    and "tiles_accepted dt nm0 (map (\<lambda>c. the (nm_tiles nm c)) cs)"
  shows "\<exists>nm1. load_tiles dt cs (bytes @ rest) nm0 = Some (True, nm1)
           \<and> nm_params nm1 = nm_params nm0
           \<and> nm_tiles nm1 = (\<lambda>k. if k \<in> set cs then nm_tiles nm k else nm_tiles nm0 k)"
  using assms
proof (induction cs arbitrary: bytes nm0)
  case Nil
  then show ?case by simp
next
  case (Cons c cs)
  obtain i j where c: "c = (i, j)" by (cases c)
  from Cons.prems(1) c obtain t bs where
    t: "nm_tiles nm c = Some t" and
    sz: "0 \<le> sint (dataSize t)" "nat (sint (dataSize t)) \<le> length (data t)" and
    rest: "save_tiles nm cs = Some bs" and
    bytes: "bytes = le32 (dataSize t) @ take (nat (sint (dataSize t))) (data t) @ bs"
    by (auto simp add: getTileAt_def split: option.splits if_splits)
  from Cons.prems(2) t have len: "length (data t) = nat (sint (dataSize t))"
    and hdr: "tile_header_xy dt (data t) = c" by auto
  from Cons.prems(3) t obtain nm1 where
    add: "addTile dt nm0 (data t) (dataSize t) = Some nm1" and
    acc: "tiles_accepted dt nm1 (map (\<lambda>c. the (nm_tiles nm c)) cs)"
    by (auto split: option.splits)
  have nm1: "nm_params nm1 = nm_params nm0" "nm_tiles nm1 = (nm_tiles nm0)(c \<mapsto> t)"
    using add hdr by (auto simp add: addTile_def split: if_splits)
  from Cons.IH [OF rest _ acc, of ] Cons.prems(2) obtain nm2 where
    l2: "load_tiles dt cs (bs @ rest) nm1 = Some (True, nm2)"
    and p2: "nm_params nm2 = nm_params nm1"
    and t2: "nm_tiles nm2 = (\<lambda>k. if k \<in> set cs then nm_tiles nm k else nm_tiles nm1 k)"
    by auto
  have "load_tiles dt (c # cs) (bytes @ rest) nm0 = Some (True, nm2)"
    using sz len add l2 by (simp add: bytes read32_le32 not_less)
  moreover have "nm_tiles nm2 = (\<lambda>k. if k \<in> set (c # cs) then nm_tiles nm k else nm_tiles nm0 k)"
    using t2 nm1 t by (auto simp add: fun_eq_iff)
  ultimately show ?case using p2 nm1 by simp
qed

lemma load_tiles_params:
  "load_tiles dt cs bs nm = Some (ok, nm1) \<Longrightarrow> nm_params nm1 = nm_params nm"
proof (induction cs arbitrary: bs nm)
  case Nil
  then show ?case by simp
next
  case (Cons c cs)
  then show ?case
    by (auto simp add: addTile_def split: option.splits if_splits)
qed

lemma initNavmesh_ok:
  assumes "dtAllocNavMesh dt" "dtAllocNavMeshQuery dt"
    "navquery_init_ok dt \<lparr>nm_params = None, nm_tiles = Map.empty\<rparr> 2048"
  shows "initNavmesh dt s
         = (True, s\<lparr>m_navmesh := Some \<lparr>nm_params = None, nm_tiles = Map.empty\<rparr>,
                     m_navquery := Some ()\<rparr>)"
  using assms by (simp add: initNavmesh_def Let_def)

lemma initCrowd_navmesh:
  "initCrowd fp dt s = Some (ok, s1) \<Longrightarrow>
     m_navmesh s1 = m_navmesh s \<and> m_aabb s1 = m_aabb s
     \<and> m_num_tiles_x s1 = m_num_tiles_x s \<and> m_num_tiles_z s1 = m_num_tiles_z s"
  by (auto simp add: initCrowd_def Let_def split: if_splits)

lemma initCrowd_ok:
  "dtAllocCrowd dt \<Longrightarrow> crowd_init_ok dt 1000 f_4 (m_navmesh s) \<Longrightarrow>
     \<exists>s1. initCrowd fp dt s = Some (True, s1)"
  by (simp add: initCrowd_def Let_def)

lemma load_clear: "load fp dt path (clear s) fs = load fp dt path s fs"
  by (simp add: load_def clear_def)

lemma save_tiles_Some:
  "\<forall>c\<in>set cs. \<exists>t. nm_tiles nm c = Some t \<and> 0 \<le> sint (dataSize t)
       \<and> length (data t) = nat (sint (dataSize t)) \<and> tile_header_xy dt (data t) = c
   \<Longrightarrow> \<exists>bs. save_tiles nm cs = Some bs"
proof (induction cs)
  case Nil
  then show ?case by simp
next
  case (Cons c cs)
  obtain i j where c: "c = (i, j)" by (cases c)
  from Cons.prems obtain t where t: "nm_tiles nm (i, j) = Some t" "0 \<le> sint (dataSize t)"
    "length (data t) = nat (sint (dataSize t))"
    unfolding c by auto
  from Cons obtain bs where "save_tiles nm cs = Some bs" by auto
  with t show ?case by (simp add: c getTileAt_def)
qed

text \<open>
  C2. Take a built store: the navmesh is initialised and every coordinate of the tile grid
  holds a tile whose buffer has the length it records and whose header carries that
  coordinate. When the file can be created, and the library accepts again what it accepted
  when the store was built (the allocations, the stored parameters, the stored tiles in
  row-major order, the crowd context), then \<^verbatim>\<open>save\<close> succeeds and \<^verbatim>\<open>load\<close> of the saved
  file succeeds, from any scene, and reproduces the world AABB, the grid width and height,
  the navmesh parameters and, at every grid coordinate, the tile itself, hence its
  polygon and vertex counts.
\<close>

theorem save_load_roundtrip:
  fixes s s0 :: "('h, 'c, 's) scene"
  assumes nm: "m_navmesh s = Some nm" and p: "nm_params nm = Some p"
    and tiles: "\<forall>c\<in>set (tile_coords (m_num_tiles_x s) (m_num_tiles_z s)).
                  \<exists>t. nm_tiles nm c = Some t \<and> 0 \<le> sint (dataSize t)
                    \<and> length (data t) = nat (sint (dataSize t))
                    \<and> tile_header_xy dt (data t) = c"
    and wr: "open_for_writing en path"
    and al: "dtAllocNavMesh dt" "dtAllocNavMeshQuery dt"
            "navquery_init_ok dt \<lparr>nm_params = None, nm_tiles = Map.empty\<rparr> 2048"
    and ini: "navmesh_init_ok dt p"
    and acc: "tiles_accepted dt \<lparr>nm_params = Some p, nm_tiles = Map.empty\<rparr>
                (map (\<lambda>c. the (nm_tiles nm c)) (tile_coords (m_num_tiles_x s) (m_num_tiles_z s)))"
    and cr: "dtAllocCrowd dt" "\<And>nm1. crowd_init_ok dt 1000 f_4 (Some nm1)"
  shows "\<exists>fs1 s1 nm1.
           save en path s fs = Some (True, fs1)
         \<and> load fp dt path s0 fs1 = Some (True, s1)
         \<and> m_aabb s1 = m_aabb s
         \<and> m_num_tiles_x s1 = m_num_tiles_x s \<and> m_num_tiles_z s1 = m_num_tiles_z s
         \<and> m_navmesh s1 = Some nm1 \<and> nm_params nm1 = Some p
         \<and> (\<forall>c\<in>set (tile_coords (m_num_tiles_x s) (m_num_tiles_z s)).
               nm_tiles nm1 c = nm_tiles nm c
             \<and> map_option (\<lambda>t. tile_header_polyCount dt (data t)) (nm_tiles nm1 c)
                 = map_option (\<lambda>t. tile_header_polyCount dt (data t)) (nm_tiles nm c)
             \<and> map_option (\<lambda>t. tile_header_vertCount dt (data t)) (nm_tiles nm1 c)
                 = map_option (\<lambda>t. tile_header_vertCount dt (data t)) (nm_tiles nm c))"
proof -
  let ?nx = "m_num_tiles_x s" and ?nz = "m_num_tiles_z s"
  let ?cs = "tile_coords ?nx ?nz"
  let ?e = "\<lparr>nm_params = None, nm_tiles = Map.empty\<rparr>"
  from save_tiles_Some [OF tiles] obtain bs where sv: "save_tiles nm ?cs = Some bs" by blast
  let ?file = "aabb_bytes (m_aabb s) @ le32 ?nx @ le32 ?nz @ params_bytes p @ bs"
  have save: "save en path s fs = Some (True, fs(path \<mapsto> ?file))"
    using nm p wr sv by (simp add: save_def)
  have wf: "\<forall>c\<in>set ?cs. \<forall>t. nm_tiles nm c = Some t \<longrightarrow>
           length (data t) = nat (sint (dataSize t)) \<and> tile_header_xy dt (data t) = c"
    using tiles by auto
  have ini1: "dtNavMesh_init dt ?e p = Some \<lparr>nm_params = Some p, nm_tiles = Map.empty\<rparr>"
    using ini by (simp add: dtNavMesh_init_def)
  from load_tiles_save_tiles [OF sv wf acc, of "[]"] obtain nm1 where
    lt: "load_tiles dt ?cs bs \<lparr>nm_params = Some p, nm_tiles = Map.empty\<rparr> = Some (True, nm1)"
    and p1: "nm_params nm1 = Some p"
    and t0: "nm_tiles nm1 = (\<lambda>k. if k \<in> set ?cs then nm_tiles nm k
                               else nm_tiles \<lparr>nm_params = Some p, nm_tiles = Map.empty\<rparr> k)"
    by (auto simp only: append_Nil2 dtNavMesh.simps)
  have t1: "\<forall>c\<in>set ?cs. nm_tiles nm1 c = nm_tiles nm c"
    by (simp add: t0)
  let ?s3 = "(clear s0)\<lparr>m_navmesh := Some ?e, m_navquery := Some (),
      m_aabb := m_aabb s, m_num_tiles_x := ?nx, m_num_tiles_z := ?nz, m_navmesh := Some nm1\<rparr>"
  have c3: "m_crowd ?s3 = None" by (simp add: clear_def)
  have "crowd_init_ok dt 1000 f_4 (m_navmesh ?s3)" using cr(2) by simp
  from initCrowd_ok [OF cr(1) this, of fp] obtain s1 where
    ic: "initCrowd fp dt ?s3 = Some (True, s1)" by blast
  note keep = initCrowd_navmesh [OF ic]
  have load: "load fp dt path s0 (fs(path \<mapsto> ?file)) = Some (True, s1)"
    using ic c3
    by (simp add: load_def Let_def initNavmesh_ok [OF al] read_aabb_bytes read32_le32
          read_params_bytes ini1 lt)
  have "m_navmesh s1 = Some nm1" using keep by simp
  moreover have "m_aabb s1 = m_aabb s" "m_num_tiles_x s1 = ?nx" "m_num_tiles_z s1 = ?nz"
    using keep by simp_all
  ultimately show ?thesis
    using save load p1 t1 by auto
qed

lemma load_rejected:
  assumes "fs path = Some (aabb_bytes b @ le32 nx @ le32 nz @ params_bytes p @ rest)"
    and "dtAllocNavMesh dt" "dtAllocNavMeshQuery dt"
    and "navquery_init_ok dt \<lparr>nm_params = None, nm_tiles = Map.empty\<rparr> 2048"
    and "\<not> navmesh_init_ok dt p"
  shows "load fp dt path s fs
         = Some (False, (clear s)\<lparr>m_navmesh := Some \<lparr>nm_params = None, nm_tiles = Map.empty\<rparr>,
                   m_navquery := Some (), m_aabb := b, m_num_tiles_x := nx, m_num_tiles_z := nz\<rparr>)"
  using assms
  by (simp add: load_def Let_def initNavmesh_ok read_aabb_bytes read32_le32 read_params_bytes
        dtNavMesh_init_def)

lemma load_accepted_params:
  assumes "fs path = Some (aabb_bytes b @ le32 nx @ le32 nz @ params_bytes p @ rest)"
    and "dtAllocNavMesh dt" "dtAllocNavMeshQuery dt"
    and "navquery_init_ok dt \<lparr>nm_params = None, nm_tiles = Map.empty\<rparr> 2048"
    and "navmesh_init_ok dt p"
    and "load fp dt path s fs = Some (ok, s1)"
  shows "\<exists>nm1. m_navmesh s1 = Some nm1 \<and> nm_params nm1 = Some p"
proof -
  let ?e = "\<lparr>nm_params = None, nm_tiles = Map.empty\<rparr>"
  let ?s2 = "(clear s)\<lparr>m_navmesh := Some ?e, m_navquery := Some (),
      m_aabb := b, m_num_tiles_x := nx, m_num_tiles_z := nz\<rparr>"
  have ini: "dtNavMesh_init dt ?e p = Some \<lparr>nm_params = Some p, nm_tiles = Map.empty\<rparr>"
    using assms(5) by (simp add: dtNavMesh_init_def)
  from assms(6) obtain r nm2 where
    lt: "load_tiles dt (tile_coords nx nz) rest \<lparr>nm_params = Some p, nm_tiles = Map.empty\<rparr>
           = Some (r, nm2)"
    and res: "(\<not> r \<and> s1 = ?s2\<lparr>m_navmesh := Some nm2\<rparr>)
            \<or> (r \<and> initCrowd fp dt (?s2\<lparr>m_navmesh := Some nm2\<rparr>) = Some (ok, s1))"
    using assms(1-4)
    by (auto simp add: load_def Let_def initNavmesh_ok read_aabb_bytes read32_le32
          read_params_bytes ini clear_def split: option.splits bool.splits)
  have "nm_params nm2 = Some p" using load_tiles_params [OF lt] by simp
  moreover have "m_navmesh s1 = Some nm2"
    using res initCrowd_navmesh [of fp dt "?s2\<lparr>m_navmesh := Some nm2\<rparr>" ok s1] by auto
  ultimately show ?thesis by simp
qed

lemma load_header:
  assumes "fs path = Some (aabb_bytes b @ le32 nx @ le32 nz @ params_bytes p @ rest)"
    and "dtAllocNavMesh dt" "dtAllocNavMeshQuery dt"
    and "navquery_init_ok dt \<lparr>nm_params = None, nm_tiles = Map.empty\<rparr> 2048"
    and "navmesh_init_ok dt p"
  shows "load fp dt path s fs
         = (case load_tiles dt (tile_coords nx nz) rest \<lparr>nm_params = Some p, nm_tiles = Map.empty\<rparr> of
              None \<Rightarrow> None
            | Some (r, nm2) \<Rightarrow>
                if r then initCrowd fp dt ((clear s)\<lparr>m_navmesh := Some \<lparr>nm_params = None, nm_tiles = Map.empty\<rparr>,
                            m_navquery := Some (), m_aabb := b, m_num_tiles_x := nx,
                            m_num_tiles_z := nz, m_navmesh := Some nm2\<rparr>)
                else Some (False, (clear s)\<lparr>m_navmesh := Some \<lparr>nm_params = None, nm_tiles = Map.empty\<rparr>,
                            m_navquery := Some (), m_aabb := b, m_num_tiles_x := nx,
                            m_num_tiles_z := nz, m_navmesh := Some nm2\<rparr>))"
proof -
  have c: "m_crowd (clear s) = None" by (simp add: clear_def)
  show ?thesis
    using assms c
    by (simp add: load_def Let_def initNavmesh_ok read_aabb_bytes read32_le32 read_params_bytes
          dtNavMesh_init_def split: option.splits bool.splits)
qed

text \<open>
  C6, as amended. \<^verbatim>\<open>load\<close> clears the scene first: it does on a scene what it does on the
  cleared scene, and when the file cannot be opened it returns failure in the cleared
  state. With a file that holds the whole header it allocates a fresh navmesh and query
  and takes the AABB and the grid size from the file; when the library rejects the stored
  parameters, it returns failure and leaves the freshly allocated navmesh, without
  parameters and without tiles, and its query in the scene; when the library accepts them,
  every result of \<^verbatim>\<open>load\<close> holds a navmesh initialised with the stored parameters.
\<close>

theorem load_clears_and_reinitialises:
  fixes s :: "('h, 'c, 's) scene"
  shows "load fp dt path (clear s) fs = load fp dt path s fs
       \<and> (fs path = None \<longrightarrow> load fp dt path s fs = Some (False, clear s))
       \<and> (fs path = Some (aabb_bytes b @ le32 nx @ le32 nz @ params_bytes p @ rest)
            \<and> dtAllocNavMesh dt \<and> dtAllocNavMeshQuery dt
            \<and> navquery_init_ok dt \<lparr>nm_params = None, nm_tiles = Map.empty\<rparr> 2048
          \<longrightarrow> (\<not> navmesh_init_ok dt p \<longrightarrow>
                 load fp dt path s fs
                 = Some (False, (clear s)\<lparr>m_navmesh := Some \<lparr>nm_params = None, nm_tiles = Map.empty\<rparr>,
                      m_navquery := Some (), m_aabb := b, m_num_tiles_x := nx,
                      m_num_tiles_z := nz\<rparr>))
            \<and> (navmesh_init_ok dt p \<longrightarrow>
                 (\<forall>ok s1. load fp dt path s fs = Some (ok, s1) \<longrightarrow>
                    (\<exists>nm1. m_navmesh s1 = Some nm1 \<and> nm_params nm1 = Some p))))"
  using load_rejected [of fs path b nx nz p rest dt fp s]
    load_accepted_params [of fs path b nx nz p rest dt fp s]
  by (auto simp add: load_clear) (simp add: load_def)

text \<open>
  C6 as stated fails: the library rejects the parameters of the file, \<^verbatim>\<open>load\<close> returns
  failure, and the scene it leaves holds a navmesh (\<^verbatim>\<open>isNavmeshReady\<close> is true), which the
  cleared scene does not.
\<close>

theorem load_rejected_not_cleared_counterexample:
  "load ex_fpu ex_detour ''navmesh.bin'' ex_scene [''navmesh.bin'' \<mapsto> ex_rejected_file]
     = Some (False, (clear ex_scene)\<lparr>m_navmesh := Some \<lparr>nm_params = None, nm_tiles = Map.empty\<rparr>,
          m_navquery := Some (), m_aabb := m_aabb ex_scene, m_num_tiles_x := 0,
          m_num_tiles_z := 0\<rparr>)
   \<and> \<not> navmesh_init_ok ex_detour ex_rejected_params
   \<and> isNavmeshReady ((clear ex_scene)\<lparr>m_navmesh := Some \<lparr>nm_params = None, nm_tiles = Map.empty\<rparr>,
          m_navquery := Some (), m_aabb := m_aabb ex_scene, m_num_tiles_x := 0,
          m_num_tiles_z := 0\<rparr>)
   \<and> \<not> isNavmeshReady (clear ex_scene)"
proof -
  have f: "[''navmesh.bin'' \<mapsto> ex_rejected_file] ''navmesh.bin''
        = Some (aabb_bytes (m_aabb ex_scene) @ le32 0 @ le32 0 @ params_bytes ex_rejected_params @ [])"
    by (simp add: ex_rejected_file_def)
  have rej: "\<not> navmesh_init_ok ex_detour ex_rejected_params"
    by (simp add: ex_detour_def ex_rejected_params_def ex_navmesh_params_def)
  have al: "dtAllocNavMesh ex_detour" "dtAllocNavMeshQuery ex_detour"
    "navquery_init_ok ex_detour \<lparr>nm_params = None, nm_tiles = Map.empty\<rparr> 2048"
    by (simp_all add: ex_detour_def)
  show ?thesis
    using load_rejected [of "[''navmesh.bin'' \<mapsto> ex_rejected_file]" "''navmesh.bin''"
        "m_aabb ex_scene" 0 0 ex_rejected_params "[]" ex_detour ex_fpu ex_scene] f al rej
    by (simp add: isNavmeshReady_def clear_def)
qed

lemma ex_tile_coords: "tile_coords 2 1 = [(0, 0), (1, 0)]"
  by (simp add: tile_coords_def numeral_2_eq_2)

theorem save_load_roundtrip_witness:
  "m_navmesh ex_built_scene = Some ex_built_navmesh
   \<and> nm_params ex_built_navmesh = Some ex_navmesh_params
   \<and> tile_coords (m_num_tiles_x ex_built_scene) (m_num_tiles_z ex_built_scene) = [(0, 0), (1, 0)]
   \<and> nm_tiles ex_built_navmesh (0, 0) = Some ex_tile0
   \<and> nm_tiles ex_built_navmesh (1, 0) = Some ex_tile1
   \<and> tile_header_xy ex_detour (data ex_tile0) = (0, 0)
   \<and> tile_header_xy ex_detour (data ex_tile1) = (1, 0)
   \<and> open_for_writing ex_engine ''navmesh.bin''
   \<and> navmesh_init_ok ex_detour ex_navmesh_params
   \<and> tiles_accepted ex_detour \<lparr>nm_params = Some ex_navmesh_params, nm_tiles = Map.empty\<rparr>
        [ex_tile0, ex_tile1]
   \<and> (\<exists>fs1 s1 nm1.
          save ex_engine ''navmesh.bin'' ex_built_scene Map.empty = Some (True, fs1)
        \<and> load ex_fpu ex_detour ''navmesh.bin'' ex_scene fs1 = Some (True, s1)
        \<and> m_aabb s1 = m_aabb ex_built_scene
        \<and> m_num_tiles_x s1 = 2 \<and> m_num_tiles_z s1 = 1
        \<and> m_navmesh s1 = Some nm1 \<and> nm_params nm1 = Some ex_navmesh_params
        \<and> nm_tiles nm1 (0, 0) = Some ex_tile0 \<and> nm_tiles nm1 (1, 0) = Some ex_tile1)"
proof -
  have nx: "m_num_tiles_x ex_built_scene = 2" "m_num_tiles_z ex_built_scene = 1"
    by (simp_all add: ex_built_scene_def ex_scene_def)
  have cs: "tile_coords (m_num_tiles_x ex_built_scene) (m_num_tiles_z ex_built_scene)
            = [(0, 0), (1, 0)]"
    by (simp only: nx ex_tile_coords)
  have nm: "m_navmesh ex_built_scene = Some ex_built_navmesh"
    by (simp add: ex_built_scene_def)
  have p: "nm_params ex_built_navmesh = Some ex_navmesh_params"
    by (simp add: ex_built_navmesh_def)
  have t: "nm_tiles ex_built_navmesh (0, 0) = Some ex_tile0"
    "nm_tiles ex_built_navmesh (1, 0) = Some ex_tile1"
    by (simp_all add: ex_built_navmesh_def)
  have hd: "tile_header_xy ex_detour (data ex_tile0) = (0, 0)"
    "tile_header_xy ex_detour (data ex_tile1) = (1, 0)"
    by (simp_all add: ex_detour_def ex_tile0_def ex_tile1_def ex_header_blob)
  have tiles: "\<forall>c\<in>set (tile_coords (m_num_tiles_x ex_built_scene) (m_num_tiles_z ex_built_scene)).
        \<exists>t. nm_tiles ex_built_navmesh c = Some t \<and> 0 \<le> sint (dataSize t)
           \<and> length (data t) = nat (sint (dataSize t))
           \<and> tile_header_xy ex_detour (data t) = c"
    unfolding cs using t hd by (simp add: ex_tile0_def ex_tile1_def length_ex_blob)
  have wr: "open_for_writing ex_engine ''navmesh.bin''"
    by (simp add: ex_engine_def)
  have al: "dtAllocNavMesh ex_detour" "dtAllocNavMeshQuery ex_detour"
    "navquery_init_ok ex_detour \<lparr>nm_params = None, nm_tiles = Map.empty\<rparr> 2048"
    by (simp_all add: ex_detour_def)
  have ini: "navmesh_init_ok ex_detour ex_navmesh_params"
    by (simp add: ex_detour_def ex_navmesh_params_def word_sless_alt)
  have acc0: "tiles_accepted ex_detour \<lparr>nm_params = Some ex_navmesh_params, nm_tiles = Map.empty\<rparr>
        [ex_tile0, ex_tile1]"
    by (simp add: addTile_def ex_detour_def ex_tile0_def ex_tile1_def ex_header_blob length_ex_blob)
  have acc: "tiles_accepted ex_detour \<lparr>nm_params = Some ex_navmesh_params, nm_tiles = Map.empty\<rparr>
        (map (\<lambda>c. the (nm_tiles ex_built_navmesh c))
           (tile_coords (m_num_tiles_x ex_built_scene) (m_num_tiles_z ex_built_scene)))"
    unfolding cs using acc0 t by simp
  have cr: "dtAllocCrowd ex_detour" "\<And>nm1. crowd_init_ok ex_detour 1000 f_4 (Some nm1)"
    by (simp_all add: ex_detour_def)
  from save_load_roundtrip [OF nm p tiles wr al ini acc cr, of Map.empty ex_fpu ex_scene]
  obtain fs1 s1 nm1 where
    r: "save ex_engine ''navmesh.bin'' ex_built_scene Map.empty = Some (True, fs1)"
       "load ex_fpu ex_detour ''navmesh.bin'' ex_scene fs1 = Some (True, s1)"
       "m_aabb s1 = m_aabb ex_built_scene"
       "m_num_tiles_x s1 = m_num_tiles_x ex_built_scene"
       "m_num_tiles_z s1 = m_num_tiles_z ex_built_scene"
       "m_navmesh s1 = Some nm1" "nm_params nm1 = Some ex_navmesh_params"
       "\<forall>c\<in>set (tile_coords (m_num_tiles_x ex_built_scene) (m_num_tiles_z ex_built_scene)).
           nm_tiles nm1 c = nm_tiles ex_built_navmesh c"
    by blast
  from r(8) have "nm_tiles nm1 (0, 0) = Some ex_tile0" "nm_tiles nm1 (1, 0) = Some ex_tile1"
    unfolding cs using t by simp_all
  with r nx have "\<exists>fs1 s1 nm1.
          save ex_engine ''navmesh.bin'' ex_built_scene Map.empty = Some (True, fs1)
        \<and> load ex_fpu ex_detour ''navmesh.bin'' ex_scene fs1 = Some (True, s1)
        \<and> m_aabb s1 = m_aabb ex_built_scene
        \<and> m_num_tiles_x s1 = 2 \<and> m_num_tiles_z s1 = 1
        \<and> m_navmesh s1 = Some nm1 \<and> nm_params nm1 = Some ex_navmesh_params
        \<and> nm_tiles nm1 (0, 0) = Some ex_tile0 \<and> nm_tiles nm1 (1, 0) = Some ex_tile1"
    by auto
  with nm p cs t hd wr ini acc0 show ?thesis by blast
qed

theorem load_clears_and_reinitialises_witness:
  "[''navmesh.bin'' \<mapsto> ex_rejected_file] ''navmesh.bin''
      = Some (aabb_bytes (m_aabb ex_scene) @ le32 0 @ le32 0 @ params_bytes ex_rejected_params @ [])
   \<and> dtAllocNavMesh ex_detour \<and> dtAllocNavMeshQuery ex_detour
   \<and> navquery_init_ok ex_detour \<lparr>nm_params = None, nm_tiles = Map.empty\<rparr> 2048
   \<and> \<not> navmesh_init_ok ex_detour ex_rejected_params
   \<and> load ex_fpu ex_detour ''navmesh.bin'' ex_scene [''navmesh.bin'' \<mapsto> ex_rejected_file]
       = Some (False, (clear ex_scene)\<lparr>m_navmesh := Some \<lparr>nm_params = None, nm_tiles = Map.empty\<rparr>,
            m_navquery := Some (), m_aabb := m_aabb ex_scene, m_num_tiles_x := 0,
            m_num_tiles_z := 0\<rparr>)
   \<and> load ex_fpu ex_detour ''navmesh.bin'' (clear ex_scene) [''navmesh.bin'' \<mapsto> ex_rejected_file]
       = load ex_fpu ex_detour ''navmesh.bin'' ex_scene [''navmesh.bin'' \<mapsto> ex_rejected_file]
   \<and> load ex_fpu ex_detour ''navmesh.bin'' ex_scene Map.empty = Some (False, clear ex_scene)
   \<and> navmesh_init_ok ex_detour ex_navmesh_params
   \<and> (\<exists>s1 nm1. load ex_fpu ex_detour ''navmesh.bin'' ex_scene [''navmesh.bin'' \<mapsto> ex_empty_file]
                   = Some (True, s1)
          \<and> m_navmesh s1 = Some nm1 \<and> nm_params nm1 = Some ex_navmesh_params)"
proof -
  let ?fs = "[''navmesh.bin'' \<mapsto> ex_rejected_file]"
  let ?fs2 = "[''navmesh.bin'' \<mapsto> ex_empty_file]"
  have f: "?fs ''navmesh.bin''
        = Some (aabb_bytes (m_aabb ex_scene) @ le32 0 @ le32 0 @ params_bytes ex_rejected_params @ [])"
    by (simp add: ex_rejected_file_def)
  have f2: "?fs2 ''navmesh.bin''
        = Some (aabb_bytes (m_aabb ex_scene) @ le32 0 @ le32 0 @ params_bytes ex_navmesh_params @ [])"
    by (simp add: ex_empty_file_def)
  have rej: "\<not> navmesh_init_ok ex_detour ex_rejected_params"
    by (simp add: ex_detour_def ex_rejected_params_def ex_navmesh_params_def)
  have ini: "navmesh_init_ok ex_detour ex_navmesh_params"
    by (simp add: ex_detour_def ex_navmesh_params_def word_sless_alt)
  have al: "dtAllocNavMesh ex_detour" "dtAllocNavMeshQuery ex_detour"
    "navquery_init_ok ex_detour \<lparr>nm_params = None, nm_tiles = Map.empty\<rparr> 2048"
    by (simp_all add: ex_detour_def)
  note T = load_clears_and_reinitialises [where fp = ex_fpu and dt = ex_detour
      and path = "''navmesh.bin''" and s = ex_scene and b = "m_aabb ex_scene" and nx = 0 and nz = 0
      and rest = "[]"]
  from T [where fs = ?fs and p = ex_rejected_params] f al rej
  have a: "load ex_fpu ex_detour ''navmesh.bin'' ex_scene ?fs
       = Some (False, (clear ex_scene)\<lparr>m_navmesh := Some \<lparr>nm_params = None, nm_tiles = Map.empty\<rparr>,
            m_navquery := Some (), m_aabb := m_aabb ex_scene, m_num_tiles_x := 0,
            m_num_tiles_z := 0\<rparr>)"
    and b: "load ex_fpu ex_detour ''navmesh.bin'' (clear ex_scene) ?fs
       = load ex_fpu ex_detour ''navmesh.bin'' ex_scene ?fs"
    by blast+
  from T [where fs = Map.empty and p = ex_rejected_params]
  have c: "load ex_fpu ex_detour ''navmesh.bin'' ex_scene Map.empty = Some (False, clear ex_scene)"
    by simp
  have tc: "tile_coords 0 0 = []"
    by (simp add: tile_coords_def)
  have "\<exists>s1. initCrowd ex_fpu ex_detour ((clear ex_scene)\<lparr>m_navmesh := Some \<lparr>nm_params = None, nm_tiles = Map.empty\<rparr>,
         m_navquery := Some (), m_aabb := m_aabb ex_scene,
         m_num_tiles_x := 0, m_num_tiles_z := 0,
         m_navmesh := Some \<lparr>nm_params = Some ex_navmesh_params, nm_tiles = Map.empty\<rparr>\<rparr>) = Some (True, s1)"
    by (rule initCrowd_ok) (simp_all add: ex_detour_def)
  then obtain s1 where
    "initCrowd ex_fpu ex_detour ((clear ex_scene)\<lparr>m_navmesh := Some \<lparr>nm_params = None, nm_tiles = Map.empty\<rparr>,
         m_navquery := Some (), m_aabb := m_aabb ex_scene,
         m_num_tiles_x := 0, m_num_tiles_z := 0,
         m_navmesh := Some \<lparr>nm_params = Some ex_navmesh_params, nm_tiles = Map.empty\<rparr>\<rparr>) = Some (True, s1)"
    by blast
  then have ld: "load ex_fpu ex_detour ''navmesh.bin'' ex_scene ?fs2 = Some (True, s1)"
    by (simp add: load_header [where fs = ?fs2 and path = "''navmesh.bin''", OF f2 al ini] tc)
  from T [where fs = ?fs2 and p = ex_navmesh_params] f2 al ini ld
  have d: "\<exists>nm1. m_navmesh s1 = Some nm1 \<and> nm_params nm1 = Some ex_navmesh_params"
    by blast
  show ?thesis
    using f al rej a b c ini ld d by blast
qed








lemmas ex_rc_defs = ex_recast_def ex_polymesh_def ex_detail_mesh_def




lemma concat_rows_length:
  "length (concat (map (\<lambda>j. map (f j) [0..<X]) [0..<Z])) = Z * X"
  by (induction Z) simp_all


lemma tile_coords_length: "length (tile_coords nx nz) = nat (sint nz) * nat (sint nx)"
  by (simp add: tile_coords_def concat_rows_length)





















end
